theory Spec2Isabelle
  imports Main "HOL-Library.Word" "HOL-Library.AList" "HOL-Library.Code_Target_Numeral"
begin

section \<open>JavaScript values and strings\<close>

text \<open>
  Request bodies are JSON objects whose fields the handlers read by destructuring. A field
  is modelled as \<open>string option\<close>: \<open>None\<close> is a field that is absent from the body
  (\<open>undefined\<close>), \<open>Some s\<close> a string. The test \<open>!x\<close> of the handlers holds for
  \<open>undefined\<close> and for the empty string.
\<close>

definition js_falsy :: "string option \<Rightarrow> bool" where
  "js_falsy v = (v = None \<or> v = Some [])"

text \<open>The string of a field that the handler has found present.\<close>

definition js_str :: "string option \<Rightarrow> string" where
  "js_str v = (case v of None \<Rightarrow> [] | Some s \<Rightarrow> s)"

text \<open>\<open>String.prototype.includes\<close>: the argument occurs as a contiguous substring.\<close>

fun js_includes :: "string \<Rightarrow> string \<Rightarrow> bool" where
  "js_includes [] sub = (sub = [])"
| "js_includes (c # cs) sub = (take (length sub) (c # cs) = sub \<or> js_includes cs sub)"

text \<open>\<open>String.prototype.split\<close> with a one-character separator.\<close>

fun js_split :: "char \<Rightarrow> string \<Rightarrow> string list" where
  "js_split sep [] = [[]]"
| "js_split sep (c # cs) =
     (if c = sep then [] # js_split sep cs
      else (case js_split sep cs of
              [] \<Rightarrow> [[c]]
            | p # ps \<Rightarrow> (c # p) # ps))"

text \<open>
  A property read \<open>obj[k]\<close> on an object that \<open>JSON.parse\<close> produced. The object's own
  properties are the association list, in insertion order; a key that is not an own
  property is looked up on \<open>Object.prototype\<close>, whose properties are functions and objects
  (truthy values without any of the fields of a stored record).
\<close>

definition object_prototype_keys :: "string list" where
  "object_prototype_keys =
     [''constructor'', ''__proto__'', ''hasOwnProperty'', ''isPrototypeOf'',
      ''propertyIsEnumerable'', ''toLocaleString'', ''toString'', ''valueOf'',
      ''__defineGetter__'', ''__defineSetter__'', ''__lookupGetter__'', ''__lookupSetter__'']"

datatype 'a js_property = Undefined | Own 'a | Inherited

definition js_get :: "(string \<times> 'a) list \<Rightarrow> string \<Rightarrow> 'a js_property" where
  "js_get obj k =
     (case map_of obj k of
        Some v \<Rightarrow> Own v
      | None \<Rightarrow> if k \<in> set object_prototype_keys then Inherited else Undefined)"

text \<open>A property key that is \<open>undefined\<close> is converted to the string \<open>undefined\<close>.\<close>

definition js_key :: "string option \<Rightarrow> string" where
  "js_key v = (case v of None \<Rightarrow> ''undefined'' | Some s \<Rightarrow> s)"

text \<open>\<open>Buffer.toString('hex')\<close>: two lower-case hexadecimal digits per byte.\<close>

definition hex_digit :: "nat \<Rightarrow> char" where
  "hex_digit n = ''0123456789abcdef'' ! (n mod 16)"

definition hex_byte :: "8 word \<Rightarrow> string" where
  "hex_byte b = [hex_digit (unat b div 16), hex_digit (unat b)]"

definition to_hex :: "8 word list \<Rightarrow> string" where
  "to_hex bs = concat (map hex_byte bs)"

section \<open>Clock values and their text forms\<close>

text \<open>
  \<open>Date.now()\<close> is a number of milliseconds since 1970-01-01T00:00:00Z. The handlers
  store \<open>Date.toISOString()\<close> (\<open>YYYY-MM-DDTHH:MM:SS.sssZ\<close>), and SQLite's
  \<open>CURRENT_TIMESTAMP\<close> and \<open>datetime('now')\<close> are the text \<open>YYYY-MM-DD HH:MM:SS\<close>.
  Both forms are given for the years up to 9999, where the year has four digits.
\<close>

definition leap_year :: "nat \<Rightarrow> bool" where
  "leap_year y = (y mod 4 = 0 \<and> (y mod 100 \<noteq> 0 \<or> y mod 400 = 0))"

definition year_length :: "nat \<Rightarrow> nat" where
  "year_length y = (if leap_year y then 366 else 365)"

function year_of_days :: "nat \<Rightarrow> nat \<Rightarrow> nat \<times> nat" where
  "year_of_days y d =
     (if d < year_length y then (y, d) else year_of_days (Suc y) (d - year_length y))"
  by pat_completeness auto
termination
  by (relation "measure (\<lambda>(y, d). d)") (auto simp: year_length_def)

declare year_of_days.simps [simp del]

definition month_lengths :: "nat \<Rightarrow> nat list" where
  "month_lengths y =
     [31, if leap_year y then 29 else 28, 31, 30, 31, 30, 31, 31, 30, 31, 30, 31]"

fun month_of_days :: "nat list \<Rightarrow> nat \<Rightarrow> nat \<Rightarrow> nat \<times> nat" where
  "month_of_days [] m d = (m, d)"
| "month_of_days (l # ls) m d =
     (if d < l then (m, d) else month_of_days ls (Suc m) (d - l))"

text \<open>The civil date (year, month from 1, day from 1) of a day number counted from 1970-01-01.\<close>

definition civil_date :: "nat \<Rightarrow> nat \<times> nat \<times> nat" where
  "civil_date n =
     (case year_of_days 1970 n of
        (y, doy) \<Rightarrow>
          (case month_of_days (month_lengths y) 1 doy of
             (m, d) \<Rightarrow> (y, m, Suc d)))"

definition digit_char :: "nat \<Rightarrow> char" where
  "digit_char n = char_of (48 + n mod 10)"

definition pad2 :: "nat \<Rightarrow> string" where
  "pad2 n = [digit_char (n div 10), digit_char n]"

definition pad3 :: "nat \<Rightarrow> string" where
  "pad3 n = [digit_char (n div 100), digit_char (n div 10), digit_char n]"

definition pad4 :: "nat \<Rightarrow> string" where
  "pad4 n = [digit_char (n div 1000), digit_char (n div 100), digit_char (n div 10), digit_char n]"

definition day_number :: "nat \<Rightarrow> nat" where
  "day_number ms = ms div 86400000"

definition date_text :: "nat \<Rightarrow> string" where
  "date_text ms =
     (case civil_date (day_number ms) of
        (y, m, d) \<Rightarrow> pad4 y @ ''-'' @ pad2 m @ ''-'' @ pad2 d)"

definition clock_text :: "nat \<Rightarrow> string" where
  "clock_text ms =
     pad2 (ms div 3600000 mod 24) @ '':'' @ pad2 (ms div 60000 mod 60) @ '':'' @
     pad2 (ms div 1000 mod 60)"

definition toISOString :: "nat \<Rightarrow> string" where
  "toISOString ms = date_text ms @ ''T'' @ clock_text ms @ ''.'' @ pad3 (ms mod 1000) @ ''Z''"

definition sqlite_datetime :: "nat \<Rightarrow> string" where
  "sqlite_datetime ms = date_text ms @ '' '' @ clock_text ms"

text \<open>
  SQLite compares two TEXT values with the BINARY collation: byte by byte, a proper prefix
  being the smaller.
\<close>

fun text_less :: "string \<Rightarrow> string \<Rightarrow> bool" where
  "text_less [] [] = False"
| "text_less [] (y # ys) = True"
| "text_less (x # xs) [] = False"
| "text_less (x # xs) (y # ys) =
     (if (of_char x :: nat) < of_char y then True
      else if (of_char y :: nat) < of_char x then False
      else text_less xs ys)"

text \<open>The last year both text forms cover ends at this clock value (10000-01-01T00:00:00Z).\<close>

definition end_of_time :: nat where
  "end_of_time = 253402300800000"

section \<open>The flat-file backend (license-backend.js)\<close>

text \<open>
  Two JSON documents hold the state: \<open>{ licenses: {...} }\<close> and \<open>{ users: {...} }\<close>.
  Every handler loads the documents it needs, works on the parsed copy and writes the
  whole document back. A load or a save can fail (\<open>loadDatabase\<close> returns null,
  \<open>saveDatabase\<close> returns false); whether it does is part of the environment of a call,
  as are the clock, the random bytes and the key derivation \<open>crypto.pbkdf2Sync\<close>
  (10000 rounds, 64 bytes, sha512), which is a parameter of the model.
\<close>

record license_record =
  lic_code :: string
  lic_username :: string
  lic_hardwareID :: string
  lic_activatedAt :: string
  lic_status :: string

record user_record =
  usr_username :: string
  usr_passwordHash :: string
  usr_salt :: string
  usr_licenseCode :: string
  usr_hardwareID :: string
  usr_devices :: "string list option"
  usr_createdAt :: string
  usr_lastLogin :: string

record ff_state =
  ff_licenses :: "(string \<times> license_record) list"
  ff_users :: "(string \<times> user_record) list"

record ff_env =
  ff_pbkdf2 :: "string \<Rightarrow> string \<Rightarrow> 8 word list"
  ff_now :: nat
  ff_salt_bytes :: "8 word list"
  ff_token_bytes :: "8 word list"
  ff_load_licenses_ok :: bool
  ff_load_users_ok :: bool
  ff_save_users_ok :: bool
  ff_save_licenses_ok :: bool

datatype ff_response =
    FF_Error nat string
  | FF_OtherDevice string string
  | FF_DeviceLimit nat
  | FF_Activated string string string string
  | FF_LoggedIn string string string string nat
  | FF_Session string string

text \<open>
  \<open>FF_Error status error\<close> is \<open>{ success: false, error }\<close>; \<open>FF_OtherDevice activatedBy
  activatedAt\<close> is the 403 answer \<open>License already activated on another device\<close>;
  \<open>FF_DeviceLimit devices\<close> is the 403 answer \<open>Maximum device limit reached (3 devices)\<close>;
  \<open>FF_Activated message licenseType username activatedAt\<close>, \<open>FF_LoggedIn token username
  licenseCode licenseType devicesUsed\<close> and \<open>FF_Session username licenseType\<close> are the
  three answers with \<open>success: true\<close>.
\<close>

definition VALID_LICENSE_CODES :: "string list" where
  "VALID_LICENSE_CODES = [''PSYSTUDIO-2024-FULL'', ''PSYSTUDIO-2024-PRO'', ''PSYSTUDIO-2024-TRIAL'']"

definition ff_hashPassword :: "(string \<Rightarrow> string \<Rightarrow> 8 word list) \<Rightarrow> string \<Rightarrow> string \<Rightarrow> string" where
  "ff_hashPassword kdf password salt = to_hex (kdf password salt)"

definition ff_generateSalt :: "8 word list \<Rightarrow> string" where
  "ff_generateSalt random_bytes = to_hex random_bytes"

definition ff_verifyPassword ::
  "(string \<Rightarrow> string \<Rightarrow> 8 word list) \<Rightarrow> string \<Rightarrow> string \<Rightarrow> string \<Rightarrow> bool" where
  "ff_verifyPassword kdf password salt hash = (ff_hashPassword kdf password salt = hash)"

definition licenseType :: "string \<Rightarrow> string" where
  "licenseType code = (if js_includes code ''TRIAL'' then ''trial'' else ''full'')"

record ff_activate_request =
  ar_code :: "string option"
  ar_username :: "string option"
  ar_password :: "string option"
  ar_hardwareID :: "string option"

text \<open>The branch of \<open>/api/activate-license\<close> for a code that has a license record.\<close>

definition ff_reactivate :: "license_record \<Rightarrow> string \<Rightarrow> string \<Rightarrow> string \<Rightarrow> ff_response" where
  "ff_reactivate existingLicense code username hardwareID =
     (if lic_hardwareID existingLicense \<noteq> hardwareID
      then FF_OtherDevice (lic_username existingLicense) (lic_activatedAt existingLicense)
      else if lic_username existingLicense \<noteq> username
      then FF_Error 403 ''License already activated with different username''
      else FF_Activated ''License re-activated'' (licenseType code)
             (lic_username existingLicense) (lic_activatedAt existingLicense))"

text \<open>
  The branch for a code without a license record: the user and the license are created in
  the loaded copies, then the users document is saved, then the licenses document.
\<close>

definition ff_first_activation ::
  "ff_env \<Rightarrow> ff_state \<Rightarrow> string \<Rightarrow> string \<Rightarrow> string \<Rightarrow> string \<Rightarrow> ff_response \<times> ff_state" where
  "ff_first_activation env st code username password hardwareID =
     (case js_get (ff_users st) username of
        Own u \<Rightarrow> (FF_Error 400 ''Username already taken'', st)
      | Inherited \<Rightarrow> (FF_Error 400 ''Username already taken'', st)
      | Undefined \<Rightarrow>
          (let salt = ff_generateSalt (ff_salt_bytes env);
               passwordHash = ff_hashPassword (ff_pbkdf2 env) password salt;
               user = \<lparr> usr_username = username, usr_passwordHash = passwordHash,
                        usr_salt = salt, usr_licenseCode = code, usr_hardwareID = hardwareID,
                        usr_devices = Some [hardwareID],
                        usr_createdAt = toISOString (ff_now env),
                        usr_lastLogin = toISOString (ff_now env) \<rparr>;
               license = \<lparr> lic_code = code, lic_username = username,
                           lic_hardwareID = hardwareID,
                           lic_activatedAt = toISOString (ff_now env),
                           lic_status = ''active'' \<rparr>;
               st1 = (if ff_save_users_ok env
                      then st\<lparr>ff_users := AList.update username user (ff_users st)\<rparr> else st);
               st2 = (if ff_save_licenses_ok env
                      then st1\<lparr>ff_licenses := AList.update code license (ff_licenses st)\<rparr>
                      else st1)
           in if \<not> ff_save_users_ok env \<or> \<not> ff_save_licenses_ok env
              then (FF_Error 500 ''Failed to save activation data'', st2)
              else (FF_Activated ''License activated successfully'' (licenseType code)
                      username (lic_activatedAt license), st2)))"

definition ff_activate_license :: "ff_env \<Rightarrow> ff_state \<Rightarrow> ff_activate_request \<Rightarrow> ff_response \<times> ff_state" where
  "ff_activate_license env st req =
     (if js_falsy (ar_code req) \<or> js_falsy (ar_username req) \<or> js_falsy (ar_password req)
         \<or> js_falsy (ar_hardwareID req)
      then (FF_Error 400 ''Missing required fields'', st)
      else
        (let code = js_str (ar_code req); username = js_str (ar_username req);
             password = js_str (ar_password req); hardwareID = js_str (ar_hardwareID req)
         in if code \<notin> set VALID_LICENSE_CODES
            then (FF_Error 400 ''Invalid license code'', st)
            else if \<not> ff_load_licenses_ok env \<or> \<not> ff_load_users_ok env
            then (FF_Error 500 ''Database error'', st)
            else (case map_of (ff_licenses st) code of
                    Some existingLicense \<Rightarrow>
                      (ff_reactivate existingLicense code username hardwareID, st)
                  | None \<Rightarrow> ff_first_activation env st code username password hardwareID)))"

record ff_login_request =
  lr_username :: "string option"
  lr_password :: "string option"
  lr_hardwareID :: "string option"

text \<open>
  Device admission of \<open>/api/login\<close>: the new value of \<open>user.devices\<close>, or nothing when the
  request is refused with the device limit.
\<close>

definition ff_admit_device :: "string list option \<Rightarrow> string \<Rightarrow> string list option" where
  "ff_admit_device devices hardwareID =
     (case devices of
        None \<Rightarrow> Some [hardwareID]
      | Some ds \<Rightarrow>
          if hardwareID \<notin> set ds
          then (if length ds \<ge> 3 then None else Some (ds @ [hardwareID]))
          else Some ds)"

definition ff_login :: "ff_env \<Rightarrow> ff_state \<Rightarrow> ff_login_request \<Rightarrow> ff_response \<times> ff_state" where
  "ff_login env st req =
     (if js_falsy (lr_username req) \<or> js_falsy (lr_password req) \<or> js_falsy (lr_hardwareID req)
      then (FF_Error 400 ''Missing required fields'', st)
      else
        (let username = js_str (lr_username req); password = js_str (lr_password req);
             hardwareID = js_str (lr_hardwareID req)
         in if \<not> ff_load_users_ok env
            then (FF_Error 500 ''Database error'', st)
            else (case js_get (ff_users st) username of
                    Undefined \<Rightarrow> (FF_Error 401 ''Invalid username or password'', st)
                  | Inherited \<Rightarrow> (FF_Error 500 ''Server error during login'', st)
                  | Own user \<Rightarrow>
                      if \<not> ff_verifyPassword (ff_pbkdf2 env) password (usr_salt user)
                             (usr_passwordHash user)
                      then (FF_Error 401 ''Invalid username or password'', st)
                      else (case ff_admit_device (usr_devices user) hardwareID of
                              None \<Rightarrow>
                                (FF_DeviceLimit
                                   (case usr_devices user of None \<Rightarrow> 0 | Some ds \<Rightarrow> length ds), st)
                            | Some ds \<Rightarrow>
                                (let user' = user\<lparr>usr_devices := Some ds,
                                                   usr_lastLogin := toISOString (ff_now env)\<rparr>;
                                     st' = (if ff_save_users_ok env
                                            then st\<lparr>ff_users :=
                                                      AList.update username user' (ff_users st)\<rparr>
                                            else st)
                                 in (FF_LoggedIn (to_hex (ff_token_bytes env))
                                       (usr_username user') (usr_licenseCode user')
                                       (licenseType (usr_licenseCode user')) (length ds),
                                     st'))))))"

record ff_verify_request =
  vr_username :: "string option"
  vr_token :: "string option"
  vr_hardwareID :: "string option"

definition ff_verify_session :: "ff_env \<Rightarrow> ff_state \<Rightarrow> ff_verify_request \<Rightarrow> ff_response" where
  "ff_verify_session env st req =
     (if \<not> ff_load_users_ok env
      then FF_Error 500 ''Server error''
      else (case js_get (ff_users st) (js_key (vr_username req)) of
              Undefined \<Rightarrow> FF_Error 401 ''Invalid session''
            | Inherited \<Rightarrow> FF_Error 500 ''Server error''
            | Own user \<Rightarrow>
                (case usr_devices user of
                   None \<Rightarrow> FF_Session (usr_username user) (licenseType (usr_licenseCode user))
                 | Some ds \<Rightarrow>
                     if vr_hardwareID req \<notin> Some ` set ds
                     then FF_Error 403 ''Device not authorized''
                     else FF_Session (usr_username user) (licenseType (usr_licenseCode user)))))"




section \<open>The SQLite backend\<close>

text \<open>
  Three tables, \<open>users\<close>, \<open>devices\<close> and \<open>sessions\<close>, each a list of rows in insertion
  order. Every statement is executed and committed on its own, so a handler that throws
  after a statement leaves that statement's effect in the database. The schema's
  constraints \<open>UNIQUE(user_id, hardware_id)\<close> on devices and \<open>UNIQUE\<close> on
  \<open>session_token\<close> make an INSERT throw, which the handler's \<open>catch\<close> turns into a 500
  answer.
\<close>

record user_row =
  u_id :: nat
  u_username :: string
  u_password_hash :: "string option"
  u_license_code :: string
  u_created_at :: string
  u_last_login :: "string option"
  u_is_activated :: int

record device_row =
  d_id :: nat
  d_user_id :: nat
  d_hardware_id :: string
  d_device_name :: string
  d_first_seen :: string
  d_last_seen :: string

record session_row =
  s_id :: nat
  s_user_id :: nat
  s_session_token :: string
  s_hardware_id :: string
  s_expires_at :: string
  s_created_at :: string

record sql_db =
  users_tbl :: "user_row list"
  devices_tbl :: "device_row list"
  sessions_tbl :: "session_row list"
  devices_seq :: nat
  sessions_seq :: nat

record sql_env =
  sq_pbkdf2 :: "string \<Rightarrow> string \<Rightarrow> 8 word list"
  sq_now :: nat
  sq_salt_bytes :: "8 word list"
  sq_token_bytes :: "8 word list"

datatype sql_response =
    SQL_Error nat string
  | SQL_DeviceLimit nat
  | SQL_LoggedIn string string string nat bool
  | SQL_Activated string string string
  | SQL_Valid string string string

text \<open>
  \<open>SQL_Error status error\<close> is \<open>{ error }\<close>; \<open>SQL_DeviceLimit device_count\<close> is the 403
  answer \<open>Maximum device limit reached (3 devices). Please deactivate a device first.\<close>;
  \<open>SQL_LoggedIn session_token expires_at username device_count is_new_device\<close>,
  \<open>SQL_Activated session_token expires_at username\<close> and \<open>SQL_Valid username license_code
  expires_at\<close> are the answers of a successful login, activation and verification.
\<close>

definition sq_hashPassword :: "(string \<Rightarrow> string \<Rightarrow> 8 word list) \<Rightarrow> 8 word list \<Rightarrow> string \<Rightarrow> string" where
  "sq_hashPassword kdf random_bytes password =
     (let salt = to_hex random_bytes; hash = to_hex (kdf password salt)
      in salt @ '':'' @ hash)"

definition sq_verifyPassword :: "(string \<Rightarrow> string \<Rightarrow> 8 word list) \<Rightarrow> string \<Rightarrow> string \<Rightarrow> bool" where
  "sq_verifyPassword kdf password storedHash =
     (case js_split CHR '':'' storedHash of
        salt # hash # rest \<Rightarrow> hash = to_hex (kdf password salt)
      | _ \<Rightarrow> False)"

definition generateSessionToken :: "8 word list \<Rightarrow> string" where
  "generateSessionToken random_bytes = to_hex random_bytes"

definition thirty_days :: nat where
  "thirty_days = 30 * 24 * 60 * 60 * 1000"

text \<open>\<open>SELECT * FROM users WHERE username = ?\<close> and \<open>... WHERE license_code = ?\<close>, first row.\<close>

definition user_by_username :: "sql_db \<Rightarrow> string \<Rightarrow> user_row option" where
  "user_by_username db username = find (\<lambda>u. u_username u = username) (users_tbl db)"

definition user_by_license_code :: "sql_db \<Rightarrow> string \<Rightarrow> user_row option" where
  "user_by_license_code db code = find (\<lambda>u. u_license_code u = code) (users_tbl db)"

text \<open>\<open>SELECT * FROM devices WHERE user_id = ?\<close>, all rows.\<close>

definition devices_of :: "sql_db \<Rightarrow> nat \<Rightarrow> device_row list" where
  "devices_of db uid = filter (\<lambda>d. d_user_id d = uid) (devices_tbl db)"

text \<open>\<open>INSERT INTO devices (user_id, hardware_id, device_name)\<close>; \<open>None\<close> when it throws.\<close>

definition insert_device :: "sql_db \<Rightarrow> nat \<Rightarrow> string \<Rightarrow> string \<Rightarrow> nat \<Rightarrow> sql_db option" where
  "insert_device db uid hardware_id device_name now =
     (if \<exists>d \<in> set (devices_tbl db). d_user_id d = uid \<and> d_hardware_id d = hardware_id
      then None
      else Some (db\<lparr> devices_tbl := devices_tbl db @
                        [\<lparr> d_id = Suc (devices_seq db), d_user_id = uid,
                           d_hardware_id = hardware_id, d_device_name = device_name,
                           d_first_seen = sqlite_datetime now,
                           d_last_seen = sqlite_datetime now \<rparr>],
                      devices_seq := Suc (devices_seq db) \<rparr>))"

text \<open>
  \<open>INSERT INTO sessions (user_id, session_token, hardware_id, expires_at)\<close>; \<open>None\<close> when
  it throws.
\<close>

definition insert_session :: "sql_db \<Rightarrow> nat \<Rightarrow> string \<Rightarrow> string \<Rightarrow> string \<Rightarrow> nat \<Rightarrow> sql_db option" where
  "insert_session db uid token hardware_id expires_at now =
     (if \<exists>s \<in> set (sessions_tbl db). s_session_token s = token
      then None
      else Some (db\<lparr> sessions_tbl := sessions_tbl db @
                        [\<lparr> s_id = Suc (sessions_seq db), s_user_id = uid,
                           s_session_token = token, s_hardware_id = hardware_id,
                           s_expires_at = expires_at,
                           s_created_at = sqlite_datetime now \<rparr>],
                      sessions_seq := Suc (sessions_seq db) \<rparr>))"

text \<open>\<open>UPDATE devices SET last_seen = CURRENT_TIMESTAMP WHERE id = ?\<close>\<close>

definition touch_device :: "sql_db \<Rightarrow> nat \<Rightarrow> nat \<Rightarrow> sql_db" where
  "touch_device db did now =
     db\<lparr> devices_tbl :=
           map (\<lambda>d. if d_id d = did then d\<lparr>d_last_seen := sqlite_datetime now\<rparr> else d)
             (devices_tbl db) \<rparr>"

text \<open>\<open>UPDATE users SET last_login = CURRENT_TIMESTAMP WHERE id = ?\<close>\<close>

definition touch_user :: "sql_db \<Rightarrow> nat \<Rightarrow> nat \<Rightarrow> sql_db" where
  "touch_user db uid now =
     db\<lparr> users_tbl :=
           map (\<lambda>u. if u_id u = uid then u\<lparr>u_last_login := Some (sqlite_datetime now)\<rparr> else u)
             (users_tbl db) \<rparr>"

text \<open>\<open>UPDATE users SET password_hash = ?, is_activated = 1 WHERE id = ?\<close>\<close>

definition set_password :: "sql_db \<Rightarrow> nat \<Rightarrow> string \<Rightarrow> sql_db" where
  "set_password db uid password_hash =
     db\<lparr> users_tbl :=
           map (\<lambda>u. if u_id u = uid
                     then u\<lparr>u_password_hash := Some password_hash, u_is_activated := 1\<rparr>
                     else u)
             (users_tbl db) \<rparr>"

record sq_login_request =
  lq_username :: "string option"
  lq_password :: "string option"
  lq_hardware_id :: "string option"

text \<open>
  Device admission of \<open>/api/login\<close> for the user found: the database after the INSERT or
  the UPDATE together with \<open>is_new_device\<close>, or the device count when the limit refuses
  the request. The INSERT cannot throw here, no row of this user having the hardware id.
\<close>

datatype admission = Refused nat | Admitted sql_db bool | Threw

definition sq_admit_device :: "sql_env \<Rightarrow> sql_db \<Rightarrow> user_row \<Rightarrow> string \<Rightarrow> admission" where
  "sq_admit_device env db user hardware_id =
     (let devices = devices_of db (u_id user)
      in case find (\<lambda>d. d_hardware_id d = hardware_id) devices of
           None \<Rightarrow>
             if length devices \<ge> 3 then Refused (length devices)
             else (case insert_device db (u_id user) hardware_id
                          (''Device '' @ [digit_char (length devices + 1)]) (sq_now env) of
                     None \<Rightarrow> Threw
                   | Some db1 \<Rightarrow> Admitted db1 True)
         | Some existingDevice \<Rightarrow>
             Admitted (touch_device db (d_id existingDevice) (sq_now env)) False)"

definition sq_login :: "sql_env \<Rightarrow> sql_db \<Rightarrow> sq_login_request \<Rightarrow> sql_response \<times> sql_db" where
  "sq_login env db req =
     (if js_falsy (lq_username req) \<or> js_falsy (lq_password req) \<or> js_falsy (lq_hardware_id req)
      then (SQL_Error 400 ''Username, password, and hardware ID required'', db)
      else
        (let username = js_str (lq_username req); password = js_str (lq_password req);
             hardware_id = js_str (lq_hardware_id req)
         in case user_by_username db username of
              None \<Rightarrow> (SQL_Error 401 ''Invalid credentials'', db)
            | Some user \<Rightarrow>
                if js_falsy (u_password_hash user)
                   \<or> \<not> sq_verifyPassword (sq_pbkdf2 env) password (js_str (u_password_hash user))
                then (SQL_Error 401 ''Invalid credentials'', db)
                else if u_is_activated user = 0
                then (SQL_Error 401 ''License not activated. Please activate first.'', db)
                else (case sq_admit_device env db user hardware_id of
                        Refused n \<Rightarrow> (SQL_DeviceLimit n, db)
                      | Threw \<Rightarrow> (SQL_Error 500 ''Login failed'', db)
                      | Admitted db1 is_new \<Rightarrow>
                          (let sessionToken = generateSessionToken (sq_token_bytes env);
                               expiresAt = sq_now env + thirty_days
                           in case insert_session db1 (u_id user) sessionToken hardware_id
                                     (toISOString expiresAt) (sq_now env) of
                                None \<Rightarrow> (SQL_Error 500 ''Login failed'', db1)
                              | Some db2 \<Rightarrow>
                                  (SQL_LoggedIn sessionToken (toISOString expiresAt)
                                     (u_username user)
                                     (if is_new then length (devices_of db (u_id user)) + 1
                                      else length (devices_of db (u_id user)))
                                     is_new,
                                   touch_user db2 (u_id user) (sq_now env))))))"

record sq_activate_request =
  aq_license_code :: "string option"
  aq_hardware_id :: "string option"
  aq_password :: "string option"

definition sq_activate_license :: "sql_env \<Rightarrow> sql_db \<Rightarrow> sq_activate_request \<Rightarrow> sql_response \<times> sql_db" where
  "sq_activate_license env db req =
     (if js_falsy (aq_license_code req) \<or> js_falsy (aq_hardware_id req) \<or> js_falsy (aq_password req)
      then (SQL_Error 400 ''License code, hardware ID, and password required'', db)
      else
        (let license_code = js_str (aq_license_code req); hardware_id = js_str (aq_hardware_id req);
             password = js_str (aq_password req)
         in if length password < 6
            then (SQL_Error 400 ''Password must be at least 6 characters'', db)
            else (case user_by_license_code db license_code of
                    None \<Rightarrow> (SQL_Error 404 ''Invalid license code'', db)
                  | Some user \<Rightarrow>
                      if u_is_activated user = 1
                      then (SQL_Error 400 ''License already activated. Please use login instead.'', db)
                      else
                        (let passwordHash = sq_hashPassword (sq_pbkdf2 env) (sq_salt_bytes env) password;
                             db1 = set_password db (u_id user) passwordHash
                         in case insert_device db1 (u_id user) hardware_id ''Device 1'' (sq_now env) of
                              None \<Rightarrow> (SQL_Error 500 ''Activation failed'', db1)
                            | Some db2 \<Rightarrow>
                                (let sessionToken = generateSessionToken (sq_token_bytes env);
                                     expiresAt = sq_now env + thirty_days
                                 in case insert_session db2 (u_id user) sessionToken hardware_id
                                           (toISOString expiresAt) (sq_now env) of
                                      None \<Rightarrow> (SQL_Error 500 ''Activation failed'', db2)
                                    | Some db3 \<Rightarrow>
                                        (SQL_Activated sessionToken (toISOString expiresAt)
                                           (u_username user), db3))))))"

record sq_verify_request =
  vq_session_token :: "string option"
  vq_hardware_id :: "string option"

text \<open>
  The query of \<open>/api/verify-session\<close>: the first row of sessions joined with users on
  \<open>s.user_id = u.id\<close> that has the token, the hardware id and
  \<open>s.expires_at > datetime('now')\<close>. \<open>expires_at\<close> holds the text that \<open>toISOString\<close>
  gave, so the comparison is one of two TEXT values.
\<close>

definition session_query :: "sql_db \<Rightarrow> string \<Rightarrow> string \<Rightarrow> nat \<Rightarrow> (session_row \<times> user_row) option" where
  "session_query db session_token hardware_id now =
     find (\<lambda>(s, u). s_user_id s = u_id u \<and> s_session_token s = session_token
                    \<and> s_hardware_id s = hardware_id
                    \<and> text_less (sqlite_datetime now) (s_expires_at s))
       (List.product (sessions_tbl db) (users_tbl db))"

definition sq_verify_session :: "sql_env \<Rightarrow> sql_db \<Rightarrow> sq_verify_request \<Rightarrow> sql_response" where
  "sq_verify_session env db req =
     (if js_falsy (vq_session_token req) \<or> js_falsy (vq_hardware_id req)
      then SQL_Error 400 ''Session token and hardware ID required''
      else (case session_query db (js_str (vq_session_token req)) (js_str (vq_hardware_id req))
                   (sq_now env) of
              None \<Rightarrow> SQL_Error 401 ''Invalid or expired session''
            | Some (session, u) \<Rightarrow>
                SQL_Valid (u_username u) (u_license_code u) (s_expires_at session)))"



text \<open>The constraints of the schema that session verification relies on: the primary key
  of users and the UNIQUE session token.\<close>

definition sq_keys_unique :: "sql_db \<Rightarrow> bool" where
  "sq_keys_unique db =
     (distinct (map u_id (users_tbl db)) \<and> distinct (map s_session_token (sessions_tbl db)))"

section \<open>The security-code server (server.js)\<close>

text \<open>
  The codes of this server contain characters outside Latin-1, so its strings are the
  sequences of UTF-16 code units that JavaScript compares; \<open>ascii\<close> gives the code units
  of an ASCII literal.
\<close>

type_synonym js_string = "16 word list"

definition ascii :: "string \<Rightarrow> js_string" where
  "ascii s = map of_char s"

definition unicode_code_1 :: js_string where
  "unicode_code_1 = [
    0x2E7F, 0x2E80, 0x2E81, 0x2E82, 0x2E83, 0x2E84, 0x2E85, 0x2E86, 0x2E87, 0x2E88, 0x2E89, 0x2E8A,
    0x2E8B, 0x2E8C, 0x2E8D, 0x2E8E, 0x2E8F, 0x2E90, 0x2E91, 0x2E92, 0x2E93, 0x2E94, 0x2E95, 0x2E96,
    0x2E97, 0x2E98, 0x2E99, 0x2E9A, 0x2E9B, 0x2B56, 0x2B57, 0x2B58, 0x2B59, 0x2B5A, 0x2B5B, 0x2B5C,
    0x2B5D, 0x2B5E, 0x2B5F, 0x2B60, 0x2B61, 0x2B62, 0x2B63, 0x2B64, 0x2B65, 0x2B66, 0x2B67, 0x2B68,
    0x2B69, 0x2B6A, 0x2B6B, 0x2B6C, 0x2B6D, 0x2B6E, 0x2B6F, 0x2B70, 0x2B71, 0x2B72, 0x2B73, 0x2B74,
    0x2B75, 0x2B76, 0x2B77, 0x2B78, 0x2B79, 0x2B7A, 0x2B7B, 0x2B7C, 0x2B7D, 0x2B7E, 0x2B7F, 0x2B80,
    0x2B81, 0x2B82, 0x2B83, 0x2B84, 0x2B85, 0x2B86, 0x2B87, 0x2B88, 0x2B89, 0x2B8A, 0x2B8B, 0x2B8C,
    0x2B8D, 0x2B8E, 0x2B8F, 0x2B90, 0x2B91, 0x2B92, 0x2B93, 0x2B94, 0x2B95, 0x2B96, 0x2B97, 0x2B98,
    0x2B99, 0x2B9A, 0x2B9B, 0x2B9C, 0x2B9D, 0x2B9E, 0x2B9F, 0x2BA0, 0x2BA1, 0x2BA2, 0x2BA3, 0x2BA4,
    0x2BA5, 0x2BA6, 0x2BA7, 0x2BA8, 0x2BA9, 0x2BAA, 0x2BAB, 0x2BAC, 0x2B6D, 0x2B6E, 0x2B6F, 0x2B70,
    0x2B71, 0x2B72, 0x2B73, 0x2B74, 0x2B75, 0x2B76, 0x2B77, 0x2B78, 0x2B79, 0x2B7A, 0x2B7B, 0x2B7C,
    0x2B7D, 0x2B7E, 0x2B7F, 0x2B80, 0x2B81, 0x2B82, 0x2B83, 0x2B84, 0x2B85, 0x2B86, 0x2B87, 0x2B88,
    0x2B89, 0x2B8A, 0x2B8B, 0x2B8C, 0x2B8D, 0x2B8E, 0x2B8F, 0x2B90, 0x2B91, 0x2B92, 0x2B93, 0x2B94,
    0x2B95, 0x2B96, 0x2B97, 0x2B98, 0x2B99, 0x2B9A, 0x2B9B, 0x2B9C, 0x2B9D, 0x2B9E, 0x2B9F, 0x2BA0,
    0x2BA1, 0x2BA2, 0x2BA3, 0x2BA4, 0x2BA5, 0x2BA6, 0x2BA7, 0x2BA8, 0x2BA9, 0x2BAA, 0x2BAB, 0x2BAC,
    0x2BAD, 0x2BAE, 0x2BAF, 0x2BB0, 0x2BB1, 0x2BB2, 0x2BB3, 0x2BB4, 0x2BB5, 0x2BB6, 0x2BB7, 0x2BB8,
    0x2BB9, 0x2BBA, 0x2BBB, 0x2BBC, 0x2BBD, 0x2BBE, 0x2BBF, 0x2C00, 0x2C01, 0x2C02, 0x2C03, 0x2C04,
    0x2C05, 0x2C06, 0x2C07, 0x2C08, 0x2C09, 0x2C0A, 0x2C0B, 0x2C0C, 0x2C0D, 0x2C0E, 0x2C0F, 0x2C10,
    0x2C11, 0x2C12, 0x2C13, 0x2C14, 0x2C15, 0x2C16, 0x2C17, 0x2C18, 0x2C19, 0x2C1A, 0x2C1B, 0x2C1C,
    0x2C1D, 0x2C1E, 0x2C1F, 0x2C20, 0x2C21, 0x2C22, 0x2C23, 0x2C24, 0x2C25, 0x2C26, 0x2C27, 0x2C28,
    0x2C29, 0x2C2A, 0x2C2B, 0x2C2C, 0x2C2D, 0x2C2E, 0x2C30, 0x2C31, 0x2C32, 0x2C33, 0x2C34, 0x2C35,
    0x2C36, 0x2C37, 0x2C38, 0x2C39, 0x2C3A, 0x2C3B, 0x2C3C, 0x2C3D, 0x2C3E, 0x2C3F, 0x2C40, 0x2C41,
    0x2C42, 0x2C43, 0x2C44, 0x2C45, 0x2C46, 0x2C47, 0x2C48, 0x2C49, 0x2C4A, 0x2C4B, 0x2C4C, 0x2C4D,
    0x2C4E, 0x2C4F, 0x2C50, 0x2C51, 0x2C52, 0x2C53, 0x2C54, 0x2C55, 0x2C56, 0x2C57, 0x2C58, 0x2C59,
    0x2C5A, 0x2C5B, 0x2C5C, 0x2C5D, 0x2C5E, 0x2C5F, 0x2C60, 0x2C61, 0x2C62, 0x2C63, 0x2C64, 0x2C65,
    0x2C66, 0x2C67, 0x2C68, 0x2C69, 0x2C6A, 0x2C6B, 0x2C6C, 0x2C6D, 0x2C6E, 0x2C6F, 0x2C70, 0x2C71,
    0x2C72, 0x2C73, 0x2C74, 0x2C75, 0x2C76, 0x2C77, 0x2C78, 0x2C79, 0x2C7A, 0x2C7B, 0x2C7C, 0x2C7D,
    0x2C7E, 0x2C7F, 0x2C80, 0x2C81, 0x2C82, 0x2C83, 0x2C84, 0x2C85, 0x2C86, 0x2C87, 0x2C88, 0x2C89,
    0x2C8A, 0x2C8B, 0x2C8C, 0x2C8D, 0x2C8E, 0x2C8F, 0x2C90, 0x2C91, 0x2C92, 0x2C93, 0x2C94, 0x2C95]"

definition unicode_code_2 :: js_string where
  "unicode_code_2 = [
    0x2BFF, 0x2C00, 0x2C01, 0x2C02, 0x2C03, 0x2C04, 0x2C05, 0x2C06, 0x2C07, 0x2C08, 0x2C09, 0x2C0A,
    0x2C0B, 0x2C0C, 0x2B56, 0x2B57, 0x2B58, 0x2B59, 0x2B5A, 0x2B5B, 0x2B5C, 0x2B5D, 0x2B5E, 0x2B5F,
    0x2B60, 0x2B61, 0x2B62, 0x2B63, 0x2B64, 0x2B65, 0x2B66, 0x2B67, 0x2B68, 0x2B69, 0x2B6A, 0x2B6B,
    0x2B6C, 0x2B6D, 0x2B6E, 0x2B6F, 0x2B70, 0x2B71, 0x2B72, 0x2B73, 0x2B74, 0x2B75, 0x2B76, 0x2B77,
    0x2B78, 0x2B79, 0x2B7A, 0x2B7B, 0x2B7C, 0x2B7D, 0x2B7E, 0x2B7F, 0x2B80, 0x2B81, 0x2B82, 0x2B83,
    0x2B84, 0x2B85, 0x2B86, 0x2B87, 0x2B88, 0x2B89, 0x2B8A, 0x2B8B, 0x2B8C, 0x2B8D, 0x2B8E, 0x2B8F,
    0x2B90, 0x2B91, 0x2B92, 0x2B93, 0x2B94, 0x2B95, 0x2B96, 0x2B97, 0x2B98, 0x2B99, 0x2B9A, 0x2B9B,
    0x2B9C, 0x2B9D, 0x2B9E, 0x2B9F, 0x2BA0, 0x2BA1, 0x2BA2, 0x2BA3, 0x2BA4, 0x2BA5, 0x2BA6, 0x2BA7,
    0x2BA8, 0x2BA9, 0x2BAA, 0x2BAB, 0x2BAC, 0x2BAD, 0x2BAE, 0x2BAF, 0x2BB0, 0x2BB1, 0x2BB2, 0x2BB3,
    0x2BB4, 0x2BB5, 0x2BB6, 0x2BB7, 0x2BB8, 0x2BB9, 0x2BBA, 0x2BBB, 0x2BBC, 0x2BBD, 0x2BBE, 0x2BBF,
    0x2BC0, 0x2BC1, 0x2BC2, 0x2BC3, 0x2BC4, 0x2BC5, 0x2BC6, 0x2BC7, 0x2BC8, 0x2BC9, 0x2BCA, 0x2BCB,
    0x2BCC, 0x2BCD, 0x2BCE, 0x2BCF, 0x2BD0, 0x2BD1, 0x2BD2, 0x2BD3, 0x2BD4, 0x2BD5, 0x2BD6, 0x2BD7,
    0x2BD8, 0x2BD9, 0x2BDA, 0x2BDB, 0x2BDC, 0x2BDD, 0x2BDE, 0x2BDF, 0x2BE0, 0x2BE1, 0x2BE2, 0x2BE3,
    0x2BE4, 0x2BE5, 0x2BE6, 0x2BE7, 0x2BE8, 0x2BE9, 0x2BEA, 0x2BEB, 0x2BEC, 0x2BED, 0x2BEE, 0x2BEF,
    0x2BF0, 0x2BF1, 0x2BF2, 0x2BF3, 0x2BF4, 0x2BF5, 0x2BF6, 0x2BF7, 0x2BF8, 0x2BF9, 0x2BFA, 0x2BFB,
    0x2BFC, 0x2BFD, 0x2BFE, 0x2BFF, 0x2C00, 0x2C01, 0x2C02, 0x2C03, 0x2C04, 0x2C05, 0x2C06, 0x2C07,
    0x2C08, 0x2C09, 0x2C0A, 0x2C0B, 0x2C0C, 0x2C0D, 0x2C0E, 0x2C0F, 0x2C10, 0x2C11, 0x2C12, 0x2C13,
    0x2C14, 0x2C15, 0x2C16, 0x2C17, 0x2C18, 0x2C19, 0x2C1A, 0x2C1B, 0x2C1C, 0x2C1D, 0x2C1E, 0x2C1F,
    0x2C20, 0x2C21, 0x2C22, 0x2C23, 0x2C24, 0x2C25, 0x2C26, 0x2C27, 0x2C28, 0x2C29, 0x2C2A, 0x2C2B,
    0x2C2C, 0x2C2D, 0x2C2E, 0x2C30, 0x2C31, 0x2C32, 0x2C33, 0x2C34, 0x2C35, 0x2C36, 0x2C37, 0x2C38,
    0x2C39, 0x2C3A, 0x2C3B, 0x2C3C, 0x2C3D, 0x2C3E, 0x2C3F, 0x2C40, 0x2C41, 0x2C42, 0x2C43, 0x2C44,
    0x2C45, 0x2C46, 0x2C47, 0x2C48, 0x2C49, 0x2C4A, 0x2C4B, 0x2C4C, 0x2C4D, 0x2C4E, 0x2C4F, 0x2C50,
    0x2C51, 0x2C52, 0x2C53, 0x2C54, 0x2C55, 0x2C56, 0x2C57, 0x2C58, 0x2C59, 0x2C5A, 0x2C5B, 0x2C5C,
    0x2C5D, 0x2C5E, 0x2C5F, 0x2C60, 0x2C61, 0x2C62, 0x2C63, 0x2C64, 0x2C65, 0x2C66, 0x2C67, 0x2C68,
    0x2C69, 0x2C6A, 0x2C6B, 0x2C6C, 0x2C6D, 0x2C6E, 0x2C6F, 0x2C70, 0x2C71, 0x2C72, 0x2C73, 0x2C74,
    0x2C75, 0x2C76, 0x2C77, 0x2C78, 0x2C79, 0x2C7A, 0x2C7B, 0x2C7C, 0x2C7D, 0x2C7E, 0x2C7F, 0x2C80,
    0x2C81, 0x2C82, 0x2C83, 0x2C84, 0x2C85, 0x2C86, 0x2C87, 0x2C88, 0x2C89, 0x2C8A, 0x2C8B, 0x2C8C,
    0x2C8D, 0x2C8E, 0x2C8F, 0x2C90, 0x2C91, 0x2C92, 0x2C93, 0x2C94, 0x2C95]"

definition unicode_code_3 :: js_string where
  "unicode_code_3 = [
    0x2E83, 0x2E84, 0x2E85, 0x2E86, 0x2E87, 0x2E88, 0x2E89, 0x2E8A, 0x2E8B, 0x2E8C, 0x2E8D, 0x2E8E,
    0x2E8F, 0x2E90, 0x2E91, 0x2E92, 0x2E93, 0x2E94, 0x2E95, 0x2E96, 0x2E97, 0x2E98, 0x2E99, 0x2E9A,
    0x2E9B, 0x2B56, 0x2B57, 0x2B58, 0x2B59, 0x2B5A, 0x2B5B, 0x2B5C, 0x2B5D, 0x2B5E, 0x2B5F, 0x2B60,
    0x2B61, 0x2B62, 0x2B63, 0x2B64, 0x2B65, 0x2B66, 0x2B67, 0x2B68, 0x2B69, 0x2B6A, 0x2B6B, 0x2B6C,
    0x2B6D, 0x2B6E, 0x2B6F, 0x2B70, 0x2B71, 0x2B72, 0x2B73, 0x2B74, 0x2B75, 0x2B76, 0x2B77, 0x2B78,
    0x2B79, 0x2B7A, 0x2B7B, 0x2B7C, 0x2B7D, 0x2B7E, 0x2B7F, 0x2B80, 0x2B81, 0x2B82, 0x2B83, 0x2B84,
    0x2B85, 0x2B86, 0x2B87, 0x2B88, 0x2B89, 0x2B8A, 0x2B8B, 0x2B8C, 0x2B8D, 0x2B8E, 0x2B8F, 0x2B90,
    0x2B91, 0x2B92, 0x2B93, 0x2B94, 0x2B95, 0x2B96, 0x2B97, 0x2B98, 0x2B99, 0x2B9A, 0x2B9B, 0x2B9C,
    0x2B9D, 0x2B9E, 0x2B9F, 0x2BA0, 0x2BA1, 0x2BA2, 0x2BA3, 0x2BA4, 0x2BA5, 0x2BA6, 0x2BA7, 0x2BA8,
    0x2BA9, 0x2BAA, 0x2BAB, 0x2BAC, 0x2BAD, 0x2BAE, 0x2BAF, 0x2BB0, 0x2BB1, 0x2BB2, 0x2BB3, 0x2BB4,
    0x2BB5, 0x2BB6, 0x2B77, 0x2B78, 0x2B79, 0x2B7A, 0x2B7B, 0x2B7C, 0x2B7D, 0x2B7E, 0x2B7F, 0x2B80,
    0x2B81, 0x2B82, 0x2B83, 0x2B84, 0x2B85, 0x2B86, 0x2B87, 0x2B88, 0x2B89, 0x2B8A, 0x2B8B, 0x2B8C,
    0x2B8D, 0x2B8E, 0x2B8F, 0x2B90, 0x2B91, 0x2B92, 0x2B93, 0x2B94, 0x2B95, 0x2B96, 0x2B97, 0x2B98,
    0x2B99, 0x2B9A, 0x2B9B, 0x2B9C, 0x2B9D, 0x2B9E, 0x2B9F, 0x2BA0, 0x2BA1, 0x2BA2, 0x2BA3, 0x2BA4,
    0x2BA5, 0x2BA6, 0x2BA7, 0x2BA8, 0x2BA9, 0x2BAA, 0x2BAB, 0x2BAC, 0x2BAD, 0x2BAE, 0x2BAF, 0x2BB0,
    0x2BB1, 0x2BB2, 0x2BB3, 0x2BB4, 0x2BB5, 0x2BB6, 0x2BB7, 0x2BB8, 0x2BB9, 0x2BBA, 0x2BBB, 0x2BBC,
    0x2BBD, 0x2BBE, 0x2BBF, 0x2C00, 0x2C01, 0x2C02, 0x2C03, 0x2C04, 0x2C05, 0x2C06, 0x2C07, 0x2C08,
    0x2C09, 0x2C0A, 0x2C0B, 0x2C0C, 0x2C0D, 0x2C0E, 0x2C0F, 0x2C10, 0x2C11, 0x2C12, 0x2C13, 0x2C14,
    0x2C15, 0x2C16, 0x2C17, 0x2C18, 0x2C19, 0x2C1A, 0x2C1B, 0x2C1C, 0x2C1D, 0x2C1E, 0x2C1F, 0x2C20,
    0x2C21, 0x2C22, 0x2C23, 0x2C24, 0x2C25, 0x2C26, 0x2C27, 0x2C28, 0x2C29, 0x2C2A, 0x2C2B, 0x2C2C,
    0x2C2D, 0x2C2E, 0x2C30, 0x2C31, 0x2C32, 0x2C33, 0x2C34, 0x2C35, 0x2C36, 0x2C37, 0x2C38, 0x2C39,
    0x2C3A, 0x2C3B, 0x2C3C, 0x2C3D, 0x2C3E, 0x2C3F, 0x2C40, 0x2C41, 0x2C42, 0x2C43, 0x2C44, 0x2C45,
    0x2C46, 0x2C47, 0x2C48, 0x2C49, 0x2C4A, 0x2C4B, 0x2C4C, 0x2C4D, 0x2C4E, 0x2C4F, 0x2C50, 0x2C51,
    0x2C52, 0x2C53, 0x2C54, 0x2C55, 0x2C56, 0x2C57, 0x2C58, 0x2C59, 0x2C5A, 0x2C5B, 0x2C5C, 0x2C5D,
    0x2C5E, 0x2C5F, 0x2C60, 0x2C61, 0x2C62, 0x2C63, 0x2C64, 0x2C65, 0x2C66, 0x2C67, 0x2C68, 0x2C69,
    0x2C6A, 0x2C6B, 0x2C6C, 0x2C6D, 0x2C6E, 0x2C6F, 0x2C70, 0x2C71, 0x2C72, 0x2C73, 0x2C74, 0x2C75,
    0x2C76, 0x2C77, 0x2C78, 0x2C79, 0x2C7A, 0x2C7B, 0x2C7C, 0x2C7D, 0x2C7E, 0x2C7F, 0x2C80, 0x2C81,
    0x2C82, 0x2C83, 0x2C84, 0x2C85, 0x2C86, 0x2C87, 0x2C88, 0x2C89, 0x2C8A, 0x2C8B, 0x2C8C, 0x2C8D,
    0x2C8E, 0x2C8F, 0x2C90, 0x2C91, 0x2C92, 0x2C93, 0x2C94, 0x2C95]"

definition unicode_code_4 :: js_string where
  "unicode_code_4 = [
    0x2BB7, 0x2BB8, 0x2BB9, 0x2BBA, 0x2BBB, 0x2BBC, 0x2BBD, 0x2BBE, 0x2BBF, 0x2BC0, 0x2BC1, 0x2BC2,
    0x2BC3, 0x2BC4, 0x2BC5, 0x2BC6, 0x2BC7, 0x2BC8, 0x2BC9, 0x2BCA, 0x2BCB, 0x2BCC, 0x2BCD, 0x2BCE,
    0x2BCF, 0x2BD0, 0x2BD1, 0x2BD2, 0x2BD3, 0x2BD4, 0x2BD5, 0x2BD6, 0x2BD7, 0x2BD8, 0x2BD9, 0x2BDA,
    0x2BDB, 0x2BDC, 0x2BDD, 0x2BDE, 0x2BDF, 0x2BE0, 0x2BE1, 0x2BE2, 0x2BE3, 0x2BE4, 0x2BE5, 0x2BE6,
    0x2BE7, 0x2BE8, 0x2BE9, 0x2BEA, 0x2BEB, 0x2BEC, 0x2BED, 0x2BEE, 0x2BEF, 0x2BF0, 0x2BF1, 0x2BF2,
    0x2BF3, 0x2BF4, 0x2BF5, 0x2BF6, 0x2BF7, 0x2BF8, 0x2BF9, 0x2BFA, 0x2BFB, 0x2BFC, 0x2BFD, 0x2BFE,
    0x2BFF, 0x2C00, 0x2C01, 0x2C02, 0x2C03, 0x2C04, 0x2C05, 0x2C06, 0x2C07, 0x2C08, 0x2C09, 0x2C0A,
    0x2C0B, 0x2C0C, 0x2C0D, 0x2C0E, 0x2C0F, 0x2C10, 0x2C11, 0x2C12, 0x2C13, 0x2C14, 0x2C15, 0x2C16,
    0x2C17, 0x2C18, 0x2C19, 0x2C1A, 0x2C1B, 0x2C1C, 0x2C1D, 0x2C1E, 0x2C1F, 0x2C20, 0x2C21, 0x2C22,
    0x2C23, 0x2C24, 0x2C25, 0x2C26, 0x2C27, 0x2C28, 0x2C29, 0x2C2A, 0x2C2B, 0x2C2C, 0x2C2D, 0x2C2E,
    0x2C30, 0x2C31, 0x2C32, 0x2C33, 0x2C34, 0x2C35, 0x2C36, 0x2C37, 0x2C38, 0x2C39, 0x2C3A, 0x2C3B,
    0x2C3C, 0x2C3D, 0x2C3E, 0x2C3F, 0x2C40, 0x2C41, 0x2C42, 0x2C43, 0x2C44, 0x2C45, 0x2C46, 0x2C47,
    0x2C48, 0x2C49, 0x2C4A, 0x2C4B, 0x2C4C, 0x2C4D, 0x2C4E, 0x2C4F, 0x2C50, 0x2C51, 0x2C52, 0x2C53,
    0x2C54, 0x2C55, 0x2C56, 0x2C57, 0x2C58, 0x2C59, 0x2C5A, 0x2C5B, 0x2C5C, 0x2C5D, 0x2C5E, 0x2C5F,
    0x2C60, 0x2C61, 0x2C62, 0x2C63, 0x2C64, 0x2C65, 0x2C66, 0x2C67, 0x2C68, 0x2C69, 0x2C6A, 0x2C6B,
    0x2C6C, 0x2C6D, 0x2C6E, 0x2C6F, 0x2C70, 0x2C71, 0x2C72, 0x2C73, 0x2C74, 0x2C75, 0x2C76, 0x2C77,
    0x2C78, 0x2C79, 0x2C7A, 0x2C7B, 0x2C7C, 0x2C7D, 0x2C7E, 0x2C7F, 0x2C80, 0x2C81, 0x2C82, 0x2C83,
    0x2C84, 0x2C85, 0x2C86, 0x2C87, 0x2C88, 0x2C89, 0x2C8A, 0x2C8B, 0x2C8C, 0x2C8D, 0x2C8E, 0x2C8F,
    0x2C90, 0x2C91, 0x2C92, 0x2C93, 0x2C94, 0x2C95, 0x2E7F, 0x2E80, 0x2E81, 0x2E82, 0x2E83, 0x2E84,
    0x2E85, 0x2E86, 0x2E87, 0x2E88, 0x2E89, 0x2E8A, 0x2E8B, 0x2E8C, 0x2E8D, 0x2E8E, 0x2E8F, 0x2E90,
    0x2E91, 0x2E92, 0x2E93, 0x2E94, 0x2E95, 0x2E96, 0x2E97, 0x2E98, 0x2E99, 0x2E9A, 0x2E9B, 0x2B56,
    0x2B57, 0x2B58, 0x2B59, 0x2B5A, 0x2B5B, 0x2B5C, 0x2B5D, 0x2B5E, 0x2B5F, 0x2B60, 0x2B61, 0x2B62,
    0x2B63, 0x2B64, 0x2B65, 0x2B66, 0x2B67, 0x2B68, 0x2B69, 0x2B6A, 0x2B6B, 0x2B6C, 0x2B6D, 0x2B6E,
    0x2B6F, 0x2B70, 0x2B71, 0x2B72, 0x2B73, 0x2B74, 0x2B75, 0x2B76]"

definition validSecurityCodes :: "js_string list" where
  "validSecurityCodes = [
    ascii ''020PSY969666POWER900'',
    ascii ''030PSY969666POWER800'',
    ascii ''040PSY969666POWER700'',
    ascii ''050PSY969666POWER600'',
    ascii ''060PSY969666POWER500'',
    ascii ''070PSY969666POWER400'',
    ascii ''080PSY969666POWER300'',
    ascii ''090PSY969666POWER200'',
    ascii ''100PSY969666POWER001'',
    ascii ''200PSY969666POWER002'',
    ascii ''0a2b0c9x6y9z61626392010'',
    ascii ''0a2b0c9x6y9z62626392010'',
    ascii ''0a2b0c9x6z9z62696392010'',
    ascii ''0a2b0c9x6y9w62626392810'',
    ascii ''0a2f0c9x6y9z62626390010'',
    ascii ''0a2bhc9x6y9z62w26392010'',
    ascii ''0a2x0c9xwy9z6262y392010'',
    unicode_code_1,
    unicode_code_2,
    unicode_code_3,
    unicode_code_4]"

text \<open>
  A request: its path, the header \<open>x-security-code\<close> and the parsed JSON body, which is
  absent when the request carried none.
\<close>

record code_body =
  b_securityCode :: "js_string option"
  b_code :: "js_string option"

record code_request =
  rq_path :: string
  rq_header_security_code :: "js_string option"
  rq_body :: "code_body option"

datatype code_response =
    Unauthorized
  | Valid bool
  | Authenticated
  | AuthenticationFailed
  | Crashed

text \<open>
  \<open>Unauthorized\<close> is the middleware's 401 answer \<open>{ valid: false, error }\<close>, \<open>Valid v\<close>
  the answer \<open>{ valid: v }\<close> of \<open>/validate\<close>, \<open>Authenticated\<close> and
  \<open>AuthenticationFailed\<close> the 200 and 401 answers of \<open>/authenticate\<close>, and \<open>Crashed\<close>
  the 500 answer of the framework when a handler throws on destructuring an absent body.
\<close>

definition js_truthy :: "js_string option \<Rightarrow> bool" where
  "js_truthy v = (v \<noteq> None \<and> v \<noteq> Some [])"

text \<open>\<open>validSecurityCodes.includes(x)\<close>; \<open>undefined\<close> is no member.\<close>

definition is_valid_code :: "js_string option \<Rightarrow> bool" where
  "is_valid_code v = (case v of None \<Rightarrow> False | Some c \<Rightarrow> c \<in> set validSecurityCodes)"

text \<open>The middleware: \<open>True\<close> when it calls \<open>next()\<close>.\<close>

definition security_middleware :: "code_request \<Rightarrow> bool" where
  "security_middleware req =
     (if rq_path req = ''/health'' then True
      else
        (let securityCode =
               (if js_truthy (rq_header_security_code req) then rq_header_security_code req
                else (case rq_body req of None \<Rightarrow> None | Some b \<Rightarrow> b_securityCode b))
         in \<not> (\<not> js_truthy securityCode \<or> \<not> is_valid_code securityCode)))"

definition validate_handler :: "code_request \<Rightarrow> code_response" where
  "validate_handler req =
     (case rq_body req of
        None \<Rightarrow> Crashed
      | Some b \<Rightarrow> Valid (is_valid_code (b_code b)))"

definition authenticate_handler :: "code_request \<Rightarrow> code_response" where
  "authenticate_handler req =
     (case rq_body req of
        None \<Rightarrow> Crashed
      | Some b \<Rightarrow> if is_valid_code (b_code b) then Authenticated else AuthenticationFailed)"

text \<open>A POST to \<open>/validate\<close> or \<open>/authenticate\<close> through the middleware.\<close>

definition post_validate :: "code_request \<Rightarrow> code_response" where
  "post_validate req = (if security_middleware req then validate_handler req else Unauthorized)"

definition post_authenticate :: "code_request \<Rightarrow> code_response" where
  "post_authenticate req =
     (if security_middleware req then authenticate_handler req else Unauthorized)"

section \<open>Notions used in the statements\<close>



text \<open>The hardware ids registered to a user of the SQLite backend, in insertion order.\<close>

definition sq_hardware_ids :: "sql_db \<Rightarrow> nat \<Rightarrow> string list" where
  "sq_hardware_ids db uid = map d_hardware_id (devices_of db uid)"

section \<open>Example environments and states\<close>

text \<open>
  A stand-in for the key derivation, and the scenario of the specification: the license of
  \<open>alice\<close> is activated from \<open>HW1\<close> with the password \<open>secret1\<close> on
  2026-11-02T10:02:00.123Z.
\<close>

definition example_kdf :: "string \<Rightarrow> string \<Rightarrow> 8 word list" where
  "example_kdf password salt = map of_char (salt @ password)"

definition example_salt_bytes :: "8 word list" where
  "example_salt_bytes =
     [0x5a, 0x17, 0x00, 0xff, 0x21, 0x9c, 0x44, 0x0b, 0xe3, 0x7d, 0x12, 0x68, 0xaa, 0x31, 0x05, 0xd9]"

definition example_token_bytes :: "8 word list" where
  "example_token_bytes =
     [0xc3, 0x09, 0x7e, 0x51, 0xb8, 0x2a, 0x6d, 0xf0, 0x14, 0x93, 0xe7, 0x3c, 0x85, 0x4f, 0xd2, 0x60,
      0x0a, 0xbb, 0x76, 0x19, 0xce, 0x58, 0x27, 0x9d, 0xf4, 0x31, 0x8c, 0x62, 0xa0, 0x1b, 0xe5, 0x47]"

definition other_token_bytes :: "8 word list" where
  "other_token_bytes =
     [0x11, 0xf2, 0x3d, 0x84, 0x95, 0xa6, 0x07, 0xb8, 0xc9, 0x5a, 0xeb, 0x7c, 0x0d, 0x9e, 0x2f, 0x40,
      0xd1, 0x62, 0xf3, 0x84, 0x15, 0xa6, 0x37, 0xc8, 0x59, 0xea, 0x7b, 0x0c, 0x9d, 0x2e, 0xbf, 0x50]"

definition ff_env0 :: ff_env where
  "ff_env0 = \<lparr> ff_pbkdf2 = example_kdf, ff_now = 1793613720123,
                ff_salt_bytes = example_salt_bytes, ff_token_bytes = example_token_bytes,
                ff_load_licenses_ok = True, ff_load_users_ok = True,
                ff_save_users_ok = True, ff_save_licenses_ok = True \<rparr>"

definition ff_empty :: ff_state where
  "ff_empty = \<lparr> ff_licenses = [], ff_users = [] \<rparr>"

definition ff_activation :: "string \<Rightarrow> string \<Rightarrow> ff_activate_request" where
  "ff_activation password hardwareID =
     \<lparr> ar_code = Some ''PSYSTUDIO-2024-FULL'', ar_username = Some ''alice'',
       ar_password = Some password, ar_hardwareID = Some hardwareID \<rparr>"

definition ff_alice :: ff_state where
  "ff_alice = snd (ff_activate_license ff_env0 ff_empty (ff_activation ''secret1'' ''HW1''))"

definition ff_login_from :: "string \<Rightarrow> string \<Rightarrow> string \<Rightarrow> ff_login_request" where
  "ff_login_from username password hardwareID =
     \<lparr> lr_username = Some username, lr_password = Some password,
       lr_hardwareID = Some hardwareID \<rparr>"

definition ff_alice2 :: ff_state where
  "ff_alice2 = snd (ff_login ff_env0 ff_alice (ff_login_from ''alice'' ''secret1'' ''HW2''))"


definition sq_env0 :: sql_env where
  "sq_env0 = \<lparr> sq_pbkdf2 = example_kdf, sq_now = 1793613720123,
                sq_salt_bytes = example_salt_bytes, sq_token_bytes = example_token_bytes \<rparr>"


text \<open>The environment of a later call: another clock value and other random bytes.\<close>

definition sq_env_with :: "nat \<Rightarrow> 8 word list \<Rightarrow> sql_env" where
  "sq_env_with now token_bytes =
     \<lparr> sq_pbkdf2 = example_kdf, sq_now = now,
       sq_salt_bytes = example_salt_bytes, sq_token_bytes = token_bytes \<rparr>"

definition sq_env_at :: "nat \<Rightarrow> sql_env" where
  "sq_env_at now = sq_env_with now other_token_bytes"

text \<open>The database after \<open>/api/register\<close> has created the user \<open>alice\<close>.\<close>

definition sq_registered :: sql_db where
  "sq_registered =
     \<lparr> users_tbl = [\<lparr> u_id = 1, u_username = ''alice'', u_password_hash = None,
                       u_license_code = ''9F2C41D07AB35E6688C0F1D24B7A3E15'',
                       u_created_at = ''2026-11-01 09:00:00'', u_last_login = None,
                       u_is_activated = 0 \<rparr>],
       devices_tbl = [], sessions_tbl = [], devices_seq = 0, sessions_seq = 0 \<rparr>"

definition sq_activation :: "string \<Rightarrow> string \<Rightarrow> sq_activate_request" where
  "sq_activation password hardware_id =
     \<lparr> aq_license_code = Some ''9F2C41D07AB35E6688C0F1D24B7A3E15'',
       aq_hardware_id = Some hardware_id, aq_password = Some password \<rparr>"

definition sq_alice :: sql_db where
  "sq_alice = snd (sq_activate_license sq_env0 sq_registered (sq_activation ''secret1'' ''HW1''))"

definition sq_login_from :: "string \<Rightarrow> string \<Rightarrow> string \<Rightarrow> sq_login_request" where
  "sq_login_from username password hardware_id =
     \<lparr> lq_username = Some username, lq_password = Some password,
       lq_hardware_id = Some hardware_id \<rparr>"



definition sq_verification :: "string \<Rightarrow> string \<Rightarrow> sq_verify_request" where
  "sq_verification session_token hardware_id =
     \<lparr> vq_session_token = Some session_token, vq_hardware_id = Some hardware_id \<rparr>"

definition validate_example :: code_request where
  "validate_example =
     \<lparr> rq_path = ''/validate'', rq_header_security_code = None,
       rq_body = Some \<lparr> b_securityCode = Some (ascii ''020PSY969666POWER900''),
                        b_code = Some (ascii ''0a2b0c9x6y9z61626392010'') \<rparr> \<rparr>"

text \<open>The \<open>code\<close> of the body of a request, \<open>undefined\<close> when there is no body.\<close>

definition body_code :: "code_request \<Rightarrow> js_string option" where
  "body_code req = (case rq_body req of None \<Rightarrow> None | Some b \<Rightarrow> b_code b)"

section \<open>The example states, evaluated\<close>

lemma iso_activation: "toISOString 1793613720123 = ''2026-11-02T10:02:00.123Z''"
  by code_simp

lemma iso_expiry: "toISOString (1793613720123 + thirty_days) = ''2026-12-02T10:02:00.123Z''"
  by code_simp

lemma sql_activation: "sqlite_datetime 1793613720123 = ''2026-11-02 10:02:00''"
  by code_simp

lemmas hex_defs = to_hex_def hex_byte_def hex_digit_def

lemma hex_salt: "to_hex example_salt_bytes = ''5a1700ff219c440be37d1268aa3105d9''"
  by (simp add: example_salt_bytes_def hex_defs)

lemma hex_token:
  "to_hex example_token_bytes = ''c3097e51b82a6df01493e73c854fd2600abb7619ce58279df4318c62a01be547''"
  by (simp add: example_token_bytes_def hex_defs)

lemma hex_other_token:
  "to_hex other_token_bytes = ''11f23d8495a607b8c95aeb7c0d9e2f40d162f38415a637c859ea7b0c9d2ebf50''"
  by (simp add: other_token_bytes_def hex_defs)

lemma kdf_secret1:
  "to_hex (example_kdf ''secret1'' ''5a1700ff219c440be37d1268aa3105d9'')
     = ''356131373030666632313963343430626533376431323638616133313035643973656372657431''"
  by (simp add: example_kdf_def hex_defs)

lemma kdf_abc:
  "to_hex (example_kdf ''abc'' ''5a1700ff219c440be37d1268aa3105d9'')
     = ''3561313730306666323139633434306265333764313236386161333130356439616263''"
  by (simp add: example_kdf_def hex_defs)

lemma kdf_wrong:
  "to_hex (example_kdf ''wrong'' ''5a1700ff219c440be37d1268aa3105d9'')
     = ''356131373030666632313963343430626533376431323638616133313035643977726f6e67''"
  by (simp add: example_kdf_def hex_defs)

lemma split_alice_hash:
  "js_split CHR '':''
     ''5a1700ff219c440be37d1268aa3105d9:356131373030666632313963343430626533376431323638616133313035643973656372657431''
   = [''5a1700ff219c440be37d1268aa3105d9'',
      ''356131373030666632313963343430626533376431323638616133313035643973656372657431'']"
  by simp

lemma full_license [simp]: "licenseType ''PSYSTUDIO-2024-FULL'' = ''full''"
  by (simp add: licenseType_def)

lemmas ff_eval = ff_activate_license_def ff_first_activation_def ff_reactivate_def ff_login_def
  ff_admit_device_def ff_verify_session_def ff_activation_def ff_login_from_def ff_env0_def
  ff_empty_def js_falsy_def js_str_def js_key_def js_get_def object_prototype_keys_def
  VALID_LICENSE_CODES_def ff_generateSalt_def ff_hashPassword_def ff_verifyPassword_def
  hex_salt hex_token kdf_secret1 kdf_abc kdf_wrong iso_activation Let_def

lemmas sq_eval = sq_activate_license_def sq_login_def sq_admit_device_def sq_verify_session_def
  session_query_def insert_device_def insert_session_def set_password_def touch_device_def
  touch_user_def user_by_username_def user_by_license_code_def devices_of_def
  sq_hashPassword_def sq_verifyPassword_def generateSessionToken_def sq_activation_def
  sq_login_from_def sq_verification_def sq_env0_def sq_env_at_def sq_env_with_def
  sq_registered_def
  js_falsy_def js_str_def hex_salt hex_token hex_other_token kdf_secret1 kdf_abc kdf_wrong
  split_alice_hash iso_activation iso_expiry sql_activation Let_def

lemma ff_alice_eq:
  "ff_alice =
     \<lparr> ff_licenses =
         [(''PSYSTUDIO-2024-FULL'',
           \<lparr> lic_code = ''PSYSTUDIO-2024-FULL'', lic_username = ''alice'',
             lic_hardwareID = ''HW1'', lic_activatedAt = ''2026-11-02T10:02:00.123Z'',
             lic_status = ''active'' \<rparr>)],
       ff_users =
         [(''alice'',
           \<lparr> usr_username = ''alice'',
             usr_passwordHash =
               ''356131373030666632313963343430626533376431323638616133313035643973656372657431'',
             usr_salt = ''5a1700ff219c440be37d1268aa3105d9'',
             usr_licenseCode = ''PSYSTUDIO-2024-FULL'', usr_hardwareID = ''HW1'',
             usr_devices = Some [''HW1''],
             usr_createdAt = ''2026-11-02T10:02:00.123Z'',
             usr_lastLogin = ''2026-11-02T10:02:00.123Z'' \<rparr>)] \<rparr>"
  by (simp add: ff_alice_def ff_eval)

lemma ff_alice2_eq:
  "ff_alice2 =
     \<lparr> ff_licenses =
         [(''PSYSTUDIO-2024-FULL'',
           \<lparr> lic_code = ''PSYSTUDIO-2024-FULL'', lic_username = ''alice'',
             lic_hardwareID = ''HW1'', lic_activatedAt = ''2026-11-02T10:02:00.123Z'',
             lic_status = ''active'' \<rparr>)],
       ff_users =
         [(''alice'',
           \<lparr> usr_username = ''alice'',
             usr_passwordHash =
               ''356131373030666632313963343430626533376431323638616133313035643973656372657431'',
             usr_salt = ''5a1700ff219c440be37d1268aa3105d9'',
             usr_licenseCode = ''PSYSTUDIO-2024-FULL'', usr_hardwareID = ''HW1'',
             usr_devices = Some [''HW1'', ''HW2''],
             usr_createdAt = ''2026-11-02T10:02:00.123Z'',
             usr_lastLogin = ''2026-11-02T10:02:00.123Z'' \<rparr>)] \<rparr>"
  by (simp add: ff_alice2_def ff_alice_eq ff_eval)


lemma sq_alice_eq:
  "sq_alice =
     \<lparr> users_tbl =
         [\<lparr> u_id = 1, u_username = ''alice'',
            u_password_hash = Some ''5a1700ff219c440be37d1268aa3105d9:356131373030666632313963343430626533376431323638616133313035643973656372657431'',
            u_license_code = ''9F2C41D07AB35E6688C0F1D24B7A3E15'',
            u_created_at = ''2026-11-01 09:00:00'', u_last_login = None,
            u_is_activated = 1 \<rparr>],
       devices_tbl =
         [\<lparr> d_id = 1, d_user_id = 1, d_hardware_id = ''HW1'', d_device_name = ''Device 1'',
            d_first_seen = ''2026-11-02 10:02:00'', d_last_seen = ''2026-11-02 10:02:00'' \<rparr>],
       sessions_tbl =
         [\<lparr> s_id = 1, s_user_id = 1,
            s_session_token = ''c3097e51b82a6df01493e73c854fd2600abb7619ce58279df4318c62a01be547'',
            s_hardware_id = ''HW1'', s_expires_at = ''2026-12-02T10:02:00.123Z'',
            s_created_at = ''2026-11-02 10:02:00'' \<rparr>],
       devices_seq = 1, sessions_seq = 1 \<rparr>"
  by (simp add: sq_alice_def sq_eval)









section \<open>Credentials\<close>

lemma hex_digit_mem: "hex_digit n \<in> set ''0123456789abcdef''"
  unfolding hex_digit_def by (rule nth_mem) simp

lemma hex_digit_not_colon: "hex_digit n \<noteq> CHR '':''" "CHR '':'' \<noteq> hex_digit n"
  using hex_digit_mem [of n] by auto

lemma colon_notin_to_hex: "CHR '':'' \<notin> set (to_hex bs)"
  by (induction bs) (auto simp: to_hex_def hex_byte_def hex_digit_not_colon)

lemma js_split_no_sep: "sep \<notin> set s \<Longrightarrow> js_split sep s = [s]"
  by (induction s) auto

lemma js_split_at_sep: "sep \<notin> set a \<Longrightarrow> js_split sep (a @ sep # b) = a # js_split sep b"
  by (induction a) auto

lemma split_stored_hash:
  "js_split CHR '':'' (to_hex a @ CHR '':'' # to_hex b) = [to_hex a, to_hex b]"
  using js_split_at_sep [of "CHR '':''" "to_hex a" "to_hex b"] js_split_no_sep [of "CHR '':''" "to_hex b"]
  by (simp add: colon_notin_to_hex)

lemma hex_digit_inj: "a < 16 \<Longrightarrow> b < 16 \<Longrightarrow> hex_digit a = hex_digit b \<Longrightarrow> a = b"
proof -
  assume a: "a < 16" and b: "b < 16" and e: "hex_digit a = hex_digit b"
  have d: "distinct ''0123456789abcdef''" by simp
  from a b e have "''0123456789abcdef'' ! a = ''0123456789abcdef'' ! b"
    by (simp add: hex_digit_def)
  with d a b show ?thesis by (simp add: nth_eq_iff_index_eq)
qed

lemma hex_byte_inj: "hex_byte a = hex_byte b \<Longrightarrow> a = b"
proof -
  assume e: "hex_byte a = hex_byte b"
  have la: "unat a < 256" and lb: "unat b < 256"
    using unsigned_less [of a, where 'a = nat] unsigned_less [of b, where 'a = nat] by simp_all
  have md: "hex_digit (n mod 16) = hex_digit n" for n
    by (simp add: hex_digit_def)
  from e have h1: "hex_digit (unat a div 16) = hex_digit (unat b div 16)"
    and h2': "hex_digit (unat a) = hex_digit (unat b)"
    by (simp_all add: hex_byte_def)
  from h2' have h2: "hex_digit (unat a mod 16) = hex_digit (unat b mod 16)"
    by (simp only: md)
  from la lb have "unat a div 16 < 16" "unat b div 16 < 16" by simp_all
  with h1 have d: "unat a div 16 = unat b div 16" using hex_digit_inj by blast
  have "unat a mod 16 < 16" "unat b mod 16 < 16" by simp_all
  with h2 have m: "unat a mod 16 = unat b mod 16" using hex_digit_inj by blast
  from d m have "unat a = unat b" by (metis div_mult_mod_eq)
  then show ?thesis by (simp add: word_unat_eq_iff)
qed

lemma to_hex_inj: "to_hex a = to_hex b \<Longrightarrow> a = b"
proof (induction a arbitrary: b)
  case Nil
  then show ?case by (cases b) (simp_all add: to_hex_def hex_byte_def)
next
  case (Cons x xs)
  show ?case
  proof (cases b)
    case Nil
    with Cons.prems show ?thesis by (simp add: to_hex_def hex_byte_def)
  next
    case (Cons y ys)
    with Cons.prems have "hex_byte x @ to_hex xs = hex_byte y @ to_hex ys"
      by (simp add: to_hex_def)
    moreover have "length (hex_byte x) = length (hex_byte y)" by (simp add: hex_byte_def)
    ultimately have "hex_byte x = hex_byte y" "to_hex xs = to_hex ys" by simp_all
    with Cons.IH hex_byte_inj Cons show ?thesis by blast
  qed
qed

text \<open>
  Claim C8. A password verifies against the credential derived from it, in both backends.
  A different password verifies against that credential exactly when the key derivation
  gives the same bytes for both under the stored salt; how rarely that happens is a
  property of PBKDF2, which is a parameter here.
\<close>

theorem password_verifies_against_own_hash:
  "ff_verifyPassword kdf p salt (ff_hashPassword kdf p salt)
   \<and> sq_verifyPassword kdf p (sq_hashPassword kdf random_bytes p)
   \<and> (ff_verifyPassword kdf q salt (ff_hashPassword kdf p salt) \<longleftrightarrow> kdf q salt = kdf p salt)
   \<and> (sq_verifyPassword kdf q (sq_hashPassword kdf random_bytes p)
        \<longleftrightarrow> kdf q (to_hex random_bytes) = kdf p (to_hex random_bytes))"
proof -
  have ff: "ff_verifyPassword kdf q salt (ff_hashPassword kdf p salt) \<longleftrightarrow> kdf q salt = kdf p salt"
    for q
    unfolding ff_verifyPassword_def ff_hashPassword_def using to_hex_inj by auto
  have sq: "sq_verifyPassword kdf q (sq_hashPassword kdf random_bytes p)
        \<longleftrightarrow> kdf q (to_hex random_bytes) = kdf p (to_hex random_bytes)" for q
    unfolding sq_verifyPassword_def sq_hashPassword_def Let_def
    using to_hex_inj by (auto simp: split_stored_hash)
  from ff [of p] ff [of q] sq [of p] sq [of q] show ?thesis by simp
qed

section \<open>Activation\<close>

text \<open>
  Claim C7, as amended. In the SQLite backend an activation request whose password has
  fewer than 6 characters changes nothing and is answered with status 400: with the
  password-length error when license code, hardware id and password are all non-empty,
  and with the missing-fields error otherwise.
\<close>

theorem sq_activate_short_password:
  "aq_password req = Some p \<and> length p < 6 \<longrightarrow>
     snd (sq_activate_license env db req) = db
     \<and> fst (sq_activate_license env db req) =
         (if js_falsy (aq_license_code req) \<or> js_falsy (aq_hardware_id req) \<or> p = []
          then SQL_Error 400 ''License code, hardware ID, and password required''
          else SQL_Error 400 ''Password must be at least 6 characters'')"
  by (auto simp: sq_activate_license_def js_falsy_def js_str_def)

theorem sq_activate_short_password_witness:
  "aq_password (sq_activation ''abc'' ''HW1'') = Some ''abc'' \<and> length ''abc'' < 6
   \<and> sq_activate_license sq_env0 sq_registered (sq_activation ''abc'' ''HW1'')
       = (SQL_Error 400 ''Password must be at least 6 characters'', sq_registered)"
proof -
  have h: "aq_password (sq_activation ''abc'' ''HW1'') = Some ''abc'' \<and> length ''abc'' < 6"
    by (simp add: sq_activation_def)
  have f: "\<not> js_falsy (aq_license_code (sq_activation ''abc'' ''HW1''))"
    "\<not> js_falsy (aq_hardware_id (sq_activation ''abc'' ''HW1''))"
    by (simp_all add: sq_activation_def js_falsy_def)
  from sq_activate_short_password
    [of "sq_activation ''abc'' ''HW1''" "''abc''" sq_env0 sq_registered] h f
  show ?thesis by (simp add: prod_eq_iff)
qed

text \<open>
  The flat-file backend has no check of the password length: the same request activates
  the license and stores a credential.
\<close>

theorem ff_activate_short_password_counterexample:
  "length ''abc'' < 6
   \<and> fst (ff_activate_license ff_env0 ff_empty (ff_activation ''abc'' ''HW1''))
       = FF_Activated ''License activated successfully'' ''full'' ''alice''
           ''2026-11-02T10:02:00.123Z''
   \<and> map_of (ff_users (snd (ff_activate_license ff_env0 ff_empty (ff_activation ''abc'' ''HW1''))))
         ''alice'' \<noteq> None"
  by (simp add: ff_eval)

text \<open>
  Claim C2, as amended. In the flat-file backend, for a license code with a license
  record, a request carrying the recorded username and hardware id (and any non-empty
  password) is answered with \<open>License re-activated\<close> and changes nothing, provided both
  documents load.
\<close>

theorem ff_reactivation_without_mutation:
  "code \<in> set VALID_LICENSE_CODES \<and> map_of (ff_licenses st) code = Some lic
   \<and> lic_username lic = username \<and> lic_hardwareID lic = hardwareID
   \<and> username \<noteq> [] \<and> hardwareID \<noteq> [] \<and> password \<noteq> []
   \<and> ff_load_licenses_ok env \<and> ff_load_users_ok env
   \<longrightarrow> ff_activate_license env st
         \<lparr> ar_code = Some code, ar_username = Some username,
           ar_password = Some password, ar_hardwareID = Some hardwareID \<rparr>
       = (FF_Activated ''License re-activated'' (licenseType code) username (lic_activatedAt lic), st)"
  by (auto simp: ff_activate_license_def ff_reactivate_def js_falsy_def js_str_def
        VALID_LICENSE_CODES_def)

theorem ff_reactivation_without_mutation_witness:
  "ff_activate_license ff_env0 ff_alice (ff_activation ''another password'' ''HW1'')
     = (FF_Activated ''License re-activated'' ''full'' ''alice'' ''2026-11-02T10:02:00.123Z'',
        ff_alice)"
proof -
  let ?lic = "\<lparr> lic_code = ''PSYSTUDIO-2024-FULL'', lic_username = ''alice'',
                 lic_hardwareID = ''HW1'', lic_activatedAt = ''2026-11-02T10:02:00.123Z'',
                 lic_status = ''active'' \<rparr>"
  have h: "''PSYSTUDIO-2024-FULL'' \<in> set VALID_LICENSE_CODES"
    "map_of (ff_licenses ff_alice) ''PSYSTUDIO-2024-FULL'' = Some ?lic"
    "ff_load_licenses_ok ff_env0" "ff_load_users_ok ff_env0"
    by (simp_all add: ff_alice_eq VALID_LICENSE_CODES_def ff_env0_def)
  from ff_reactivation_without_mutation
    [of "''PSYSTUDIO-2024-FULL''" ff_alice ?lic "''alice''" "''HW1''" "''another password''" ff_env0] h
  show ?thesis by (simp add: ff_activation_def)
qed

text \<open>
  The SQLite backend refuses every activation of an activated license: the second of two
  identical activation calls fails.
\<close>

theorem sq_reactivation_counterexample:
  "fst (sq_activate_license sq_env0 sq_registered (sq_activation ''secret1'' ''HW1''))
     = SQL_Activated ''c3097e51b82a6df01493e73c854fd2600abb7619ce58279df4318c62a01be547''
         ''2026-12-02T10:02:00.123Z'' ''alice''
   \<and> fst (sq_activate_license (sq_env_at 1793613800000) sq_alice (sq_activation ''secret1'' ''HW1''))
     = SQL_Error 400 ''License already activated. Please use login instead.''"
  by (simp add: sq_alice_eq sq_eval)



section \<open>Login: the device quota\<close>









lemma devices_of_touch_device:
  "map d_hardware_id (devices_of (touch_device db did now) uid) = map d_hardware_id (devices_of db uid)"
  by (simp add: devices_of_def touch_device_def filter_map comp_def cong: map_cong filter_cong)





lemma sq_hardware_ids_touch_device [simp]:
  "sq_hardware_ids (touch_device db did now) uid = sq_hardware_ids db uid"
  by (simp add: sq_hardware_ids_def devices_of_touch_device)

lemma sq_hardware_ids_touch_user [simp]:
  "sq_hardware_ids (touch_user db uid' now) uid = sq_hardware_ids db uid"
  by (simp add: sq_hardware_ids_def devices_of_def touch_user_def)










section \<open>Login: rejected credentials\<close>

text \<open>
  In the SQLite backend an unknown username, a user without a password and a password
  that does not verify get the same answer, and nothing is written.
\<close>

lemma sq_login_rejection_uniform:
  "\<not> js_falsy (lq_username req) \<Longrightarrow> \<not> js_falsy (lq_password req) \<Longrightarrow>
   \<not> js_falsy (lq_hardware_id req) \<Longrightarrow>
   (case user_by_username db (js_str (lq_username req)) of
      None \<Rightarrow> True
    | Some u \<Rightarrow> js_falsy (u_password_hash u)
               \<or> \<not> sq_verifyPassword (sq_pbkdf2 env) (js_str (lq_password req))
                      (js_str (u_password_hash u))) \<Longrightarrow>
   sq_login env db req = (SQL_Error 401 ''Invalid credentials'', db)"
  by (auto simp: sq_login_def Let_def split: option.splits)

text \<open>
  In the flat-file backend the same holds for every username that is not the name of a
  property of \<open>Object.prototype\<close>.
\<close>

lemma ff_login_rejection_uniform:
  "\<not> js_falsy (lr_username req) \<Longrightarrow> \<not> js_falsy (lr_password req) \<Longrightarrow>
   \<not> js_falsy (lr_hardwareID req) \<Longrightarrow> ff_load_users_ok env \<Longrightarrow>
   js_str (lr_username req) \<notin> set object_prototype_keys \<Longrightarrow>
   (case map_of (ff_users st) (js_str (lr_username req)) of
      None \<Rightarrow> True
    | Some u \<Rightarrow> \<not> ff_verifyPassword (ff_pbkdf2 env) (js_str (lr_password req))
                      (usr_salt u) (usr_passwordHash u)) \<Longrightarrow>
   ff_login env st req = (FF_Error 401 ''Invalid username or password'', st)"
  by (auto simp: ff_login_def Let_def js_get_def split: option.splits)

text \<open>
  Claim C6, the code at the failing input. \<open>constructor\<close> is not a stored user, yet
  \<open>usersDB.users['constructor']\<close> is the inherited function \<open>Object\<close>, which passes the
  test \<open>!user\<close>; \<open>verifyPassword\<close> then calls \<open>pbkdf2Sync\<close> with an undefined salt, which
  throws, and the handler answers 500. A stored user with a wrong password and any other
  unknown username get the 401 answer.
\<close>

theorem ff_login_inherited_name_distinguishable:
  "map_of (ff_users ff_alice) ''constructor'' = None
   \<and> ff_login ff_env0 ff_alice (ff_login_from ''constructor'' ''secret1'' ''HW1'')
       = (FF_Error 500 ''Server error during login'', ff_alice)
   \<and> ff_login ff_env0 ff_alice (ff_login_from ''alice'' ''wrong'' ''HW1'')
       = (FF_Error 401 ''Invalid username or password'', ff_alice)
   \<and> ff_login ff_env0 ff_alice (ff_login_from ''bob'' ''secret1'' ''HW1'')
       = (FF_Error 401 ''Invalid username or password'', ff_alice)"
  by (simp add: ff_alice_eq ff_eval)

section \<open>The order of the time texts\<close>

lemma text_less_irrefl: "\<not> text_less s s"
  by (induction s) auto

lemma text_less_asym: "text_less a b \<Longrightarrow> \<not> text_less b a"
  by (induction a b rule: text_less.induct) (auto split: if_splits)

lemma text_less_append:
  "length p = length q \<Longrightarrow>
   text_less (p @ r) (q @ r') \<longleftrightarrow> text_less p q \<or> (p = q \<and> text_less r r')"
proof (induction p q rule: list_induct2)
  case Nil
  then show ?case by simp
next
  case (Cons x xs y ys)
  have "x = y" if "(of_char x :: nat) = of_char y"
    using that by (metis char_of_char)
  with Cons show ?case by (auto simp: text_less_irrefl)
qed

lemma text_less_appendI1:
  "length p = length q \<Longrightarrow> text_less p q \<Longrightarrow> text_less (p @ r) (q @ r')"
  by (simp add: text_less_append)

lemma text_less_appendI2: "text_less r r' \<Longrightarrow> text_less (p @ r) (p @ r')"
  by (simp add: text_less_append)

lemma div_mod_less: "(a::nat) < b \<Longrightarrow> a div k = b div k \<Longrightarrow> a mod k < b mod k"
proof -
  assume ab: "a < b" and e: "a div k = b div k"
  have "a = a div k * k + a mod k" "b = b div k * k + b mod k" by simp_all
  with ab e show ?thesis by (metis nat_add_left_cancel_less)
qed

lemma of_char_digit: "(of_char (digit_char n) :: nat) = 48 + n mod 10"
  by (simp add: digit_char_def)

lemma length_pad [simp]: "length (pad2 n) = 2" "length (pad3 n) = 3" "length (pad4 n) = 4"
  by (simp_all add: pad2_def pad3_def pad4_def)

lemma digit_mono: "a < b \<Longrightarrow> b < 10 \<Longrightarrow> text_less [digit_char a] [digit_char b]"
  by (simp add: of_char_digit)

lemma last_digit_less:
  "a < b \<Longrightarrow> a div 10 = b div 10 \<Longrightarrow> text_less [digit_char a] [digit_char b]"
  using div_mod_less [of a b 10] by (simp add: of_char_digit)

lemma pad2_snoc: "pad2 n = [digit_char (n div 10)] @ [digit_char n]"
  by (simp add: pad2_def)

lemma pad3_snoc: "pad3 n = pad2 (n div 10) @ [digit_char n]"
  by (simp add: pad3_def pad2_def div_mult2_eq [symmetric])

lemma pad4_snoc: "pad4 n = pad3 (n div 10) @ [digit_char n]"
  by (simp add: pad4_def pad3_def div_mult2_eq [symmetric])

lemma pad2_mono: "a < b \<Longrightarrow> b < 100 \<Longrightarrow> text_less (pad2 a) (pad2 b)"
proof -
  assume ab: "a < b" and b: "b < 100"
  then have le: "a div 10 \<le> b div 10" and bd: "b div 10 < 10" by (simp_all add: div_le_mono)
  show ?thesis
  proof (cases "a div 10 < b div 10")
    case True
    from True bd have "text_less [digit_char (a div 10)] [digit_char (b div 10)]"
      by (rule digit_mono)
    then show ?thesis unfolding pad2_snoc by (intro text_less_appendI1) simp_all
  next
    case False
    with le have e: "a div 10 = b div 10" by simp
    show ?thesis unfolding pad2_snoc e
      by (rule text_less_appendI2) (rule last_digit_less [OF ab e])
  qed
qed

lemma pad3_mono: "a < b \<Longrightarrow> b < 1000 \<Longrightarrow> text_less (pad3 a) (pad3 b)"
proof -
  assume ab: "a < b" and b: "b < 1000"
  then have le: "a div 10 \<le> b div 10" and bd: "b div 10 < 100" by (simp_all add: div_le_mono)
  show ?thesis
  proof (cases "a div 10 < b div 10")
    case True
    from True bd have "text_less (pad2 (a div 10)) (pad2 (b div 10))" by (rule pad2_mono)
    then show ?thesis unfolding pad3_snoc by (intro text_less_appendI1) simp_all
  next
    case False
    with le have e: "a div 10 = b div 10" by simp
    show ?thesis unfolding pad3_snoc e
      by (rule text_less_appendI2) (rule last_digit_less [OF ab e])
  qed
qed

lemma pad4_mono: "a < b \<Longrightarrow> b < 10000 \<Longrightarrow> text_less (pad4 a) (pad4 b)"
proof -
  assume ab: "a < b" and b: "b < 10000"
  then have le: "a div 10 \<le> b div 10" and bd: "b div 10 < 1000" by (simp_all add: div_le_mono)
  show ?thesis
  proof (cases "a div 10 < b div 10")
    case True
    from True bd have "text_less (pad3 (a div 10)) (pad3 (b div 10))" by (rule pad3_mono)
    then show ?thesis unfolding pad4_snoc by (intro text_less_appendI1) simp_all
  next
    case False
    with le have e: "a div 10 = b div 10" by simp
    show ?thesis unfolding pad4_snoc e
      by (rule text_less_appendI2) (rule last_digit_less [OF ab e])
  qed
qed


subsection \<open>The calendar\<close>

lemma year_of_days_ge: "fst (year_of_days y d) \<ge> y"
proof (induction y d rule: year_of_days.induct)
  case (1 y d)
  show ?case
  proof (cases "d < year_length y")
    case True
    then show ?thesis by (subst year_of_days.simps) simp
  next
    case False
    with 1 have "Suc y \<le> fst (year_of_days (Suc y) (d - year_length y))" by simp
    with False show ?thesis by (subst year_of_days.simps) simp
  qed
qed

lemma year_of_days_less: "snd (year_of_days y d) < year_length (fst (year_of_days y d))"
proof (induction y d rule: year_of_days.induct)
  case (1 y d)
  show ?case
  proof (cases "d < year_length y")
    case True
    then show ?thesis by (subst (1 2) year_of_days.simps) simp
  next
    case False
    with 1 show ?thesis by (subst (1 2) year_of_days.simps) simp
  qed
qed

text \<open>Later days have later (year, day of year) pairs.\<close>

lemma year_of_days_mono:
  "d < d' \<Longrightarrow>
   fst (year_of_days y d) < fst (year_of_days y d')
   \<or> (fst (year_of_days y d) = fst (year_of_days y d')
       \<and> snd (year_of_days y d) < snd (year_of_days y d'))"
proof (induction y d arbitrary: d' rule: year_of_days.induct)
  case (1 y d)
  show ?case
  proof (cases "d < year_length y")
    case True
    then have l: "year_of_days y d = (y, d)" by (subst year_of_days.simps) simp
    show ?thesis
    proof (cases "d' < year_length y")
      case True
      then have "year_of_days y d' = (y, d')" by (subst year_of_days.simps) simp
      with l "1.prems" show ?thesis by simp
    next
      case False
      then have "year_of_days y d' = year_of_days (Suc y) (d' - year_length y)"
        by (subst year_of_days.simps) simp
      with year_of_days_ge [of "Suc y" "d' - year_length y"] l show ?thesis by simp
    qed
  next
    case False
    with "1.prems" have f': "\<not> d' < year_length y" by simp
    from False have l: "year_of_days y d = year_of_days (Suc y) (d - year_length y)"
      by (subst year_of_days.simps) simp
    from f' have r: "year_of_days y d' = year_of_days (Suc y) (d' - year_length y)"
      by (subst year_of_days.simps) simp
    from False f' "1.prems" have "d - year_length y < d' - year_length y" by simp
    from "1.IH" [OF False this] l r show ?thesis by simp
  qed
qed

lemma year_of_days_unfold:
  "d < year_length y \<Longrightarrow> year_of_days y d = (y, d)"
  "\<not> d < year_length y \<Longrightarrow> year_of_days y d = year_of_days (Suc y) (d - year_length y)"
  by (subst year_of_days.simps, simp)+

lemma year_of_days_add:
  "year_of_days y a = (y', 0) \<Longrightarrow> year_of_days y (a + d) = year_of_days y' d"
proof (induction y a rule: year_of_days.induct)
  case (1 y a)
  show ?case
  proof (cases "a < year_length y")
    case True
    with "1.prems" show ?thesis by (simp add: year_of_days_unfold)
  next
    case False
    with "1.prems" have "year_of_days (Suc y) (a - year_length y) = (y', 0)"
      by (simp add: year_of_days_unfold)
    from "1.IH" [OF False this] False show ?thesis
      by (simp add: year_of_days_unfold)
  qed
qed

lemma leap_year_shift: "leap_year (y + 400 * k) = leap_year y"
proof -
  have "400 * k = 4 * (100 * k)" "400 * k = 100 * (4 * k)" by simp_all
  then have "(y + 400 * k) mod 4 = y mod 4" "(y + 400 * k) mod 100 = y mod 100"
    by (metis mod_mult_self2)+
  moreover have "(y + 400 * k) mod 400 = y mod 400" by simp
  ultimately show ?thesis by (simp add: leap_year_def)
qed

lemma year_of_days_shift:
  "year_of_days (y + 400 * k) d
     = (fst (year_of_days y d) + 400 * k, snd (year_of_days y d))"
proof (induction y d rule: year_of_days.induct)
  case (1 y d)
  have l: "year_length (y + 400 * k) = year_length y"
    by (simp add: year_length_def leap_year_shift)
  show ?case
  proof (cases "d < year_length y")
    case True
    with l show ?thesis by (simp add: year_of_days_unfold)
  next
    case False
    with "1.IH" l show ?thesis by (simp add: year_of_days_unfold)
  qed
qed

lemma to_2000: "year_of_days 1970 10957 = (2000, 0)"
  by (simp add: year_of_days.simps year_length_def leap_year_def)

lemma to_2100: "year_of_days 2000 36525 = (2100, 0)"
  by (simp add: year_of_days.simps year_length_def leap_year_def)

lemma to_2200: "year_of_days 2100 36524 = (2200, 0)"
  by (simp add: year_of_days.simps year_length_def leap_year_def)

lemma to_2300: "year_of_days 2200 36524 = (2300, 0)"
  by (simp add: year_of_days.simps year_length_def leap_year_def)

lemma to_2400: "year_of_days 2300 36524 = (2400, 0)"
  by (simp add: year_of_days.simps year_length_def leap_year_def)

lemma four_centuries: "year_of_days 2000 146097 = (2400, 0)"
proof -
  have "year_of_days 2000 (36525 + (36524 + (36524 + 36524))) = (2400, 0)"
    by (simp only: year_of_days_add [OF to_2100] year_of_days_add [OF to_2200]
          year_of_days_add [OF to_2300] to_2400)
  then show ?thesis by simp
qed

lemma cycles: "year_of_days 2000 (146097 * k) = (2000 + 400 * k, 0)"
proof (induction k)
  case 0
  show ?case by (simp add: year_of_days_unfold year_length_def)
next
  case (Suc k)
  have "year_of_days 2000 (146097 * k + 146097) = year_of_days (2000 + 400 * k) 146097"
    using Suc by (rule year_of_days_add)
  also have "\<dots> = (2400 + 400 * k, 0)"
    by (simp add: year_of_days_shift four_centuries)
  finally show ?case by (simp add: add.commute)
qed

lemma year_10000: "year_of_days 1970 2932897 = (10000, 0)"
proof -
  have "year_of_days 1970 (10957 + 146097 * 20) = year_of_days 2000 (146097 * 20)"
    using to_2000 by (rule year_of_days_add)
  also have "\<dots> = (10000, 0)" by (simp only: cycles) simp
  finally show ?thesis by simp
qed

lemma year_four_digits: "d < 2932897 \<Longrightarrow> fst (year_of_days 1970 d) < 10000"
  using year_of_days_mono [of d 2932897 1970] by (simp add: year_10000)

lemma month_of_days_ge: "fst (month_of_days ls m d) \<ge> m"
proof (induction ls arbitrary: m d)
  case Nil
  show ?case by simp
next
  case (Cons l ls)
  from Cons [of "Suc m" "d - l"] show ?case by simp
qed

lemma month_of_days_le: "fst (month_of_days ls m d) \<le> m + length ls"
proof (induction ls arbitrary: m d)
  case Nil
  show ?case by simp
next
  case (Cons l ls)
  from Cons [of "Suc m" "d - l"] show ?case by simp
qed

lemma month_of_days_day:
  "d < sum_list ls \<Longrightarrow> \<forall>l \<in> set ls. l \<le> 31 \<Longrightarrow> snd (month_of_days ls m d) < 31"
proof (induction ls arbitrary: m d)
  case Nil
  then show ?case by simp
next
  case (Cons l ls)
  show ?case
  proof (cases "d < l")
    case True
    with Cons.prems show ?thesis by auto
  next
    case False
    with Cons.prems have "d - l < sum_list ls" "\<forall>l \<in> set ls. l \<le> 31" by auto
    from Cons.IH [OF this] False show ?thesis by simp
  qed
qed

lemma month_of_days_mono:
  "d < d' \<Longrightarrow>
   fst (month_of_days ls m d) < fst (month_of_days ls m d')
   \<or> (fst (month_of_days ls m d) = fst (month_of_days ls m d')
       \<and> snd (month_of_days ls m d) < snd (month_of_days ls m d'))"
proof (induction ls arbitrary: m d d')
  case Nil
  then show ?case by simp
next
  case (Cons l ls)
  show ?case
  proof (cases "d < l")
    case True
    show ?thesis
    proof (cases "d' < l")
      case True
      with \<open>d < l\<close> Cons.prems show ?thesis by simp
    next
      case False
      with \<open>d < l\<close> month_of_days_ge [of "Suc m" ls "d' - l"] show ?thesis by simp
    qed
  next
    case False
    with Cons.prems have "\<not> d' < l" "d - l < d' - l" by simp_all
    with False Cons.IH [of "d - l" "d' - l" "Suc m"] show ?thesis by simp
  qed
qed

lemma sum_month_lengths: "sum_list (month_lengths y) = year_length y"
  by (simp add: month_lengths_def year_length_def)

lemma month_lengths_le: "\<forall>l \<in> set (month_lengths y). l \<le> 31"
  by (simp add: month_lengths_def)

text \<open>The three fields of a civil date, as the date text shows them.\<close>

lemma date_text_fields:
  "date_text ms =
     pad4 (fst (year_of_days 1970 (day_number ms))) @ ''-'' @
     pad2 (fst (month_of_days (month_lengths (fst (year_of_days 1970 (day_number ms)))) 1
                  (snd (year_of_days 1970 (day_number ms))))) @ ''-'' @
     pad2 (Suc (snd (month_of_days (month_lengths (fst (year_of_days 1970 (day_number ms)))) 1
                  (snd (year_of_days 1970 (day_number ms))))))"
  by (simp add: date_text_def civil_date_def split: prod.splits)

lemma length_date_text [simp]: "length (date_text ms) = 10"
  by (simp add: date_text_fields)

lemma day_number_bound: "ms < end_of_time \<Longrightarrow> day_number ms < 2932897"
  by (simp add: end_of_time_def day_number_def less_mult_imp_div_less)

lemma date_text_mono:
  assumes "day_number a < day_number b" and "b < end_of_time"
  shows "text_less (date_text a) (date_text b)"
proof -
  let ?ya = "fst (year_of_days 1970 (day_number a))"
  let ?yb = "fst (year_of_days 1970 (day_number b))"
  let ?ra = "snd (year_of_days 1970 (day_number a))"
  let ?rb = "snd (year_of_days 1970 (day_number b))"
  let ?ma = "fst (month_of_days (month_lengths ?ya) 1 ?ra)"
  let ?mb = "fst (month_of_days (month_lengths ?yb) 1 ?rb)"
  let ?da = "snd (month_of_days (month_lengths ?ya) 1 ?ra)"
  let ?db = "snd (month_of_days (month_lengths ?yb) 1 ?rb)"
  from assms(2) have yb: "?yb < 10000"
    by (intro year_four_digits day_number_bound)
  have mb: "?mb < 100"
    using month_of_days_le [of "month_lengths ?yb" 1 ?rb] by (simp add: month_lengths_def)
  have "?rb < sum_list (month_lengths ?yb)"
    by (simp add: sum_month_lengths year_of_days_less)
  then have "?db < 31" using month_lengths_le by (rule month_of_days_day)
  then have db: "Suc ?db < 100" by simp
  from year_of_days_mono [OF assms(1), of 1970]
  consider (year) "?ya < ?yb" | (same) "?ya = ?yb" "?ra < ?rb" by blast
  then show ?thesis
  proof cases
    case year
    from year yb have "text_less (pad4 ?ya) (pad4 ?yb)" by (rule pad4_mono)
    then show ?thesis
      unfolding date_text_fields [of a] date_text_fields [of b]
      by (intro text_less_appendI1) simp_all
  next
    case same
    let ?m = "fst (month_of_days (month_lengths ?yb) 1 ?ra)"
    let ?d = "snd (month_of_days (month_lengths ?yb) 1 ?ra)"
    from month_of_days_mono [OF same(2), of "month_lengths ?yb" 1]
    consider (month) "?m < ?mb" | (day) "?m = ?mb" "?d < ?db" by blast
    then show ?thesis
    proof cases
      case month
      from month mb have "text_less (pad2 ?m) (pad2 ?mb)" by (rule pad2_mono)
      then have "text_less (pad2 ?m @ ''-'' @ pad2 (Suc ?d)) (pad2 ?mb @ ''-'' @ pad2 (Suc ?db))"
        by (intro text_less_appendI1) simp_all
      then have "text_less (''-'' @ pad2 ?m @ ''-'' @ pad2 (Suc ?d))
                   (''-'' @ pad2 ?mb @ ''-'' @ pad2 (Suc ?db))"
        by (rule text_less_appendI2)
      then show ?thesis
        unfolding date_text_fields [of a] date_text_fields [of b] same(1)
        by (rule text_less_appendI2)
    next
      case day
      from day(2) db have "text_less (pad2 (Suc ?d)) (pad2 (Suc ?db))"
        by (intro pad2_mono) simp_all
      then have "text_less (''-'' @ pad2 (Suc ?d)) (''-'' @ pad2 (Suc ?db))"
        by (rule text_less_appendI2)
      then have "text_less (pad2 ?mb @ ''-'' @ pad2 (Suc ?d)) (pad2 ?mb @ ''-'' @ pad2 (Suc ?db))"
        by (rule text_less_appendI2)
      then have "text_less (''-'' @ pad2 ?mb @ ''-'' @ pad2 (Suc ?d))
                   (''-'' @ pad2 ?mb @ ''-'' @ pad2 (Suc ?db))"
        by (rule text_less_appendI2)
      then show ?thesis
        unfolding date_text_fields [of a] date_text_fields [of b] same(1) day(1)
        by (rule text_less_appendI2)
    qed
  qed
qed

text \<open>
  The comparison of the verification query: the text of \<open>datetime('now')\<close> is below the
  text of an expiry written by \<open>toISOString\<close> exactly when the day of now is not after
  the day of the expiry. On the day of the expiry itself the two texts agree up to the
  date and then differ in a space against the letter T.
\<close>

lemma expiry_comparison:
  assumes "now < end_of_time" and "expiry < end_of_time"
  shows "text_less (sqlite_datetime now) (toISOString expiry)
           \<longleftrightarrow> day_number now \<le> day_number expiry"
proof -
  have cmp: "text_less (sqlite_datetime now) (toISOString expiry)
      \<longleftrightarrow> text_less (date_text now) (date_text expiry) \<or> date_text now = date_text expiry"
    unfolding sqlite_datetime_def toISOString_def
    by (subst text_less_append) simp_all
  consider (before) "day_number now < day_number expiry"
    | (same) "day_number now = day_number expiry"
    | (after) "day_number expiry < day_number now" by linarith
  then show ?thesis
  proof cases
    case before
    from before assms(2) have "text_less (date_text now) (date_text expiry)"
      by (rule date_text_mono)
    with before cmp show ?thesis by simp
  next
    case same
    then have "date_text now = date_text expiry" by (simp add: date_text_def)
    with same cmp show ?thesis by simp
  next
    case after
    from after assms(1) have l: "text_less (date_text expiry) (date_text now)"
      by (rule date_text_mono)
    then have "\<not> text_less (date_text now) (date_text expiry)" by (rule text_less_asym)
    moreover from l have "date_text now \<noteq> date_text expiry"
      using text_less_irrefl by auto
    ultimately show ?thesis using after cmp by simp
  qed
qed

section \<open>Sessions in the SQLite backend\<close>

lemma find_Some_holds: "find P xs = Some x \<Longrightarrow> P x \<and> x \<in> set xs"
  by (induction xs) (auto split: if_splits)

lemma unique_key:
  "distinct (map f xs) \<Longrightarrow> x \<in> set xs \<Longrightarrow> y \<in> set xs \<Longrightarrow> f x = f y \<Longrightarrow> x = y"
  by (meson distinct_map inj_onD)

lemma session_query_None:
  "session_query db token hw now = None \<longleftrightarrow>
   \<not> (\<exists>s \<in> set (sessions_tbl db). \<exists>u \<in> set (users_tbl db).
         s_user_id s = u_id u \<and> s_session_token s = token \<and> s_hardware_id s = hw
         \<and> text_less (sqlite_datetime now) (s_expires_at s))"
  by (auto simp: session_query_def find_None_iff)

lemma session_query_Some:
  "session_query db token hw now = Some (s, u) \<Longrightarrow>
   s \<in> set (sessions_tbl db) \<and> u \<in> set (users_tbl db) \<and> s_user_id s = u_id u
   \<and> s_session_token s = token \<and> s_hardware_id s = hw
   \<and> text_less (sqlite_datetime now) (s_expires_at s)"
  unfolding session_query_def by (drule find_Some_holds) auto

lemma sq_verify_other_hardware:
  assumes "sq_keys_unique db" and "s \<in> set (sessions_tbl db)" and "s_session_token s \<noteq> []"
    and "hw \<noteq> s_hardware_id s"
  shows "sq_verify_session env db (sq_verification (s_session_token s) hw)
           = (if hw = [] then SQL_Error 400 ''Session token and hardware ID required''
              else SQL_Error 401 ''Invalid or expired session'')"
proof -
  have "s' = s" if "s' \<in> set (sessions_tbl db)" "s_session_token s' = s_session_token s" for s'
    using assms(1,2) that unique_key [of s_session_token "sessions_tbl db" s' s]
    by (simp add: sq_keys_unique_def)
  with assms(4) have "session_query db (s_session_token s) hw (sq_now env) = None"
    by (auto simp: session_query_None)
  with assms(3) show ?thesis
    by (simp add: sq_verify_session_def sq_verification_def js_falsy_def js_str_def)
qed

lemma sq_verify_until_expiry_day:
  assumes "sq_keys_unique db" and "s \<in> set (sessions_tbl db)" and "u \<in> set (users_tbl db)"
    and "u_id u = s_user_id s" and "s_session_token s \<noteq> []" and "s_hardware_id s \<noteq> []"
    and "s_expires_at s = toISOString expiry" and "expiry < end_of_time"
    and "sq_now env < end_of_time" and "day_number (sq_now env) \<le> day_number expiry"
  shows "sq_verify_session env db (sq_verification (s_session_token s) (s_hardware_id s))
           = SQL_Valid (u_username u) (u_license_code u) (s_expires_at s)"
proof -
  from assms(7,8,9,10) have t: "text_less (sqlite_datetime (sq_now env)) (s_expires_at s)"
    by (simp add: expiry_comparison)
  have "\<exists>s' \<in> set (sessions_tbl db). \<exists>u' \<in> set (users_tbl db).
          s_user_id s' = u_id u' \<and> s_session_token s' = s_session_token s
          \<and> s_hardware_id s' = s_hardware_id s
          \<and> text_less (sqlite_datetime (sq_now env)) (s_expires_at s')"
    using assms(2,3) assms(4) [symmetric] t by (intro bexI [of _ s] bexI [of _ u]) simp_all
  then have "session_query db (s_session_token s) (s_hardware_id s) (sq_now env) \<noteq> None"
    by (simp add: session_query_None)
  then obtain s' u' where
    q: "session_query db (s_session_token s) (s_hardware_id s) (sq_now env) = Some (s', u')"
    by fastforce
  from session_query_Some [OF q]
  have m: "s' \<in> set (sessions_tbl db)" "u' \<in> set (users_tbl db)" "s_user_id s' = u_id u'"
    "s_session_token s' = s_session_token s" by simp_all
  from assms(1,2) m(1,4) have s': "s' = s"
    using unique_key [of s_session_token "sessions_tbl db" s' s] by (simp add: sq_keys_unique_def)
  with assms(1,3,4) m(2,3) have "u' = u"
    using unique_key [of u_id "users_tbl db" u' u] by (simp add: sq_keys_unique_def)
  with s' q assms(5,6) show ?thesis
    by (simp add: sq_verify_session_def sq_verification_def js_falsy_def js_str_def)
qed

lemma sq_verify_issuing_hardware:
  assumes "sq_keys_unique db" and "s \<in> set (sessions_tbl db)" and "u \<in> set (users_tbl db)"
    and "u_id u = s_user_id s" and "s_session_token s \<noteq> []" and "s_hardware_id s \<noteq> []"
    and "s_expires_at s = toISOString expiry" and "expiry < end_of_time"
    and "sq_now env \<le> expiry"
  shows "sq_verify_session env db (sq_verification (s_session_token s) (s_hardware_id s))
           = SQL_Valid (u_username u) (u_license_code u) (s_expires_at s)"
proof -
  from assms(8,9) have "sq_now env < end_of_time" by simp
  moreover from assms(9) have "day_number (sq_now env) \<le> day_number expiry"
    by (simp add: day_number_def div_le_mono)
  ultimately show ?thesis
    using assms(1-8) sq_verify_until_expiry_day [of db s u expiry env] by simp
qed

lemma sq_verify_after_expiry_day:
  assumes "sq_now env < end_of_time"
    and "\<forall>s \<in> set (sessions_tbl db). s_session_token s = token \<longrightarrow>
           (\<exists>expiry. s_expires_at s = toISOString expiry \<and> expiry < end_of_time
              \<and> day_number expiry < day_number (sq_now env))"
  shows "sq_verify_session env db (sq_verification token hw)
           = (if token = [] \<or> hw = [] then SQL_Error 400 ''Session token and hardware ID required''
              else SQL_Error 401 ''Invalid or expired session'')"
proof -
  have "\<not> text_less (sqlite_datetime (sq_now env)) (s_expires_at s)"
    if "s \<in> set (sessions_tbl db)" "s_session_token s = token" for s
  proof -
    from assms(2) that obtain expiry where
      e: "s_expires_at s = toISOString expiry" "expiry < end_of_time"
        "day_number expiry < day_number (sq_now env)" by blast
    with assms(1) show ?thesis by (simp add: expiry_comparison)
  qed
  then have "session_query db token hw (sq_now env) = None"
    by (auto simp: session_query_None)
  then show ?thesis
    by (simp add: sq_verify_session_def sq_verification_def js_falsy_def js_str_def)
qed

text \<open>
  Login and activation keep the keys unique, so the statements below apply to every
  database that these calls produce from one with unique keys.
\<close>

lemma touch_user_ids [simp]: "map u_id (users_tbl (touch_user db uid now)) = map u_id (users_tbl db)"
  by (simp add: touch_user_def comp_def cong: map_cong)

lemma touch_user_sessions [simp]: "sessions_tbl (touch_user db uid now) = sessions_tbl db"
  by (simp add: touch_user_def)

lemma touch_device_keys [simp]:
  "users_tbl (touch_device db did now) = users_tbl db"
  "sessions_tbl (touch_device db did now) = sessions_tbl db"
  by (simp_all add: touch_device_def)

lemma insert_device_keys:
  "insert_device db uid hw name now = Some db' \<Longrightarrow>
   users_tbl db' = users_tbl db \<and> sessions_tbl db' = sessions_tbl db"
  by (auto simp: insert_device_def split: if_splits)

lemma insert_session_keys:
  "insert_session db uid token hw expires now = Some db' \<Longrightarrow> sq_keys_unique db \<Longrightarrow>
   sq_keys_unique db'"
  by (auto simp: insert_session_def sq_keys_unique_def split: if_splits)

lemma sq_admit_device_keys:
  "sq_admit_device env db user hw = Admitted db' new \<Longrightarrow> sq_keys_unique db \<Longrightarrow>
   sq_keys_unique db'"
  by (auto simp: sq_admit_device_def sq_keys_unique_def Let_def
        split: option.splits if_splits dest: insert_device_keys)

lemma sq_login_keys_unique: "sq_keys_unique db \<Longrightarrow> sq_keys_unique (snd (sq_login env db req))"
proof -
  assume k: "sq_keys_unique db"
  have t: "sq_keys_unique (touch_user db' uid now)" if "sq_keys_unique db'" for db' uid now
    using that by (simp add: sq_keys_unique_def)
  show ?thesis
    using k
    by (auto simp: sq_login_def Let_def split: option.splits admission.splits
          intro!: t dest: sq_admit_device_keys insert_session_keys)
qed

lemma set_password_keys [simp]:
  "map u_id (users_tbl (set_password db uid password_hash)) = map u_id (users_tbl db)"
  "sessions_tbl (set_password db uid password_hash) = sessions_tbl db"
  by (simp_all add: set_password_def comp_def cong: map_cong)

lemma sq_activate_keys_unique:
  "sq_keys_unique db \<Longrightarrow> sq_keys_unique (snd (sq_activate_license env db req))"
proof -
  assume k: "sq_keys_unique db"
  have p: "sq_keys_unique (set_password db uid h)" for uid h
    using k by (simp add: sq_keys_unique_def)
  have d: "sq_keys_unique db2"
    if "insert_device (set_password db uid h) uid' hw name now = Some db2" for uid h uid' hw name now db2
    using insert_device_keys [OF that] p [of uid h] by (simp add: sq_keys_unique_def)
  show ?thesis
    using k
    by (auto simp: sq_activate_license_def Let_def split: option.splits
          intro: p dest: d insert_session_keys)
qed

text \<open>
  Claim C5, as amended. In the SQLite backend a stored session is bound to its hardware
  id: verification of its token with any other hardware id fails (with the single 401
  answer of that backend, or the 400 answer when the hardware id is empty), and
  verification with the issuing hardware id at a clock value not after the expiry answers
  with the username and license code of the owning user.
\<close>

theorem sq_session_bound_to_hardware_id:
  "sq_keys_unique db \<and> s \<in> set (sessions_tbl db) \<and> u \<in> set (users_tbl db)
   \<and> u_id u = s_user_id s \<and> s_session_token s \<noteq> [] \<and> s_hardware_id s \<noteq> []
   \<and> s_expires_at s = toISOString expiry \<and> expiry < end_of_time
   \<longrightarrow> (hw \<noteq> s_hardware_id s \<longrightarrow>
          sq_verify_session env db (sq_verification (s_session_token s) hw)
            = (if hw = [] then SQL_Error 400 ''Session token and hardware ID required''
               else SQL_Error 401 ''Invalid or expired session''))
       \<and> (sq_now env' \<le> expiry \<longrightarrow>
          sq_verify_session env' db (sq_verification (s_session_token s) (s_hardware_id s))
            = SQL_Valid (u_username u) (u_license_code u) (s_expires_at s))"
  using sq_verify_other_hardware [of db s hw env] sq_verify_issuing_hardware [of db s u expiry env']
  by blast

theorem sq_session_bound_to_hardware_id_witness:
  "sq_verify_session (sq_env_at 1793613800000) sq_alice
       (sq_verification ''c3097e51b82a6df01493e73c854fd2600abb7619ce58279df4318c62a01be547'' ''HW2'')
     = SQL_Error 401 ''Invalid or expired session''
   \<and> sq_verify_session (sq_env_at 1793613800000) sq_alice
       (sq_verification ''c3097e51b82a6df01493e73c854fd2600abb7619ce58279df4318c62a01be547'' ''HW1'')
     = SQL_Valid ''alice'' ''9F2C41D07AB35E6688C0F1D24B7A3E15'' ''2026-12-02T10:02:00.123Z''"
proof -
  let ?s = "\<lparr> s_id = 1, s_user_id = 1,
      s_session_token = ''c3097e51b82a6df01493e73c854fd2600abb7619ce58279df4318c62a01be547'',
      s_hardware_id = ''HW1'', s_expires_at = ''2026-12-02T10:02:00.123Z'',
      s_created_at = ''2026-11-02 10:02:00'' \<rparr>"
  let ?u = "\<lparr> u_id = 1, u_username = ''alice'',
      u_password_hash = Some ''5a1700ff219c440be37d1268aa3105d9:356131373030666632313963343430626533376431323638616133313035643973656372657431'',
      u_license_code = ''9F2C41D07AB35E6688C0F1D24B7A3E15'',
      u_created_at = ''2026-11-01 09:00:00'', u_last_login = None, u_is_activated = 1 \<rparr>"
  have h: "sq_keys_unique sq_alice" "?s \<in> set (sessions_tbl sq_alice)"
    "?u \<in> set (users_tbl sq_alice)" "u_id ?u = s_user_id ?s"
    "s_session_token ?s \<noteq> []" "s_hardware_id ?s \<noteq> []"
    "1793613720123 + thirty_days < end_of_time"
    "''HW2'' \<noteq> s_hardware_id ?s"
    "sq_now (sq_env_at 1793613800000) \<le> 1793613720123 + thirty_days"
    by (simp_all add: sq_keys_unique_def sq_alice_eq thirty_days_def end_of_time_def
          sq_env_at_def sq_env_with_def)
  have e: "s_expires_at ?s = toISOString (1793613720123 + thirty_days)"
    by (simp add: iso_expiry)
  from sq_session_bound_to_hardware_id
    [of sq_alice ?s ?u "1793613720123 + thirty_days" "''HW2''" "sq_env_at 1793613800000"
        "sq_env_at 1793613800000"] h e
  show ?thesis by simp
qed

text \<open>
  The flat-file backend keeps no sessions. A token issued to a login from \<open>HW1\<close> is
  accepted from \<open>HW2\<close>, another device of the same account.
\<close>

theorem ff_token_portable_counterexample:
  "fst (ff_login ff_env0 ff_alice2 (ff_login_from ''alice'' ''secret1'' ''HW1''))
     = FF_LoggedIn ''c3097e51b82a6df01493e73c854fd2600abb7619ce58279df4318c62a01be547''
         ''alice'' ''PSYSTUDIO-2024-FULL'' ''full'' 2
   \<and> ff_verify_session ff_env0
        (snd (ff_login ff_env0 ff_alice2 (ff_login_from ''alice'' ''secret1'' ''HW1'')))
        \<lparr> vr_username = Some ''alice'',
          vr_token = Some ''c3097e51b82a6df01493e73c854fd2600abb7619ce58279df4318c62a01be547'',
          vr_hardwareID = Some ''HW2'' \<rparr>
     = FF_Session ''alice'' ''full''"
  by (simp add: ff_alice2_eq ff_eval)

text \<open>
  The expiry check of the query. A verification on a later day (UTC) than the expiry of
  every stored session with the token fails, the rows being still in the table.
\<close>

lemma sq_session_rejected_on_later_day:
  "sq_verify_session (sq_env_at 1796285720123) sq_alice
       (sq_verification ''c3097e51b82a6df01493e73c854fd2600abb7619ce58279df4318c62a01be547'' ''HW1'')
     = SQL_Error 401 ''Invalid or expired session''"
proof -
  let ?token = "''c3097e51b82a6df01493e73c854fd2600abb7619ce58279df4318c62a01be547''"
  let ?env = "sq_env_at 1796285720123"
  have n: "sq_now ?env < end_of_time"
    by (simp add: sq_env_at_def sq_env_with_def end_of_time_def)
  have "toISOString 1796205720123 = toISOString (1793613720123 + thirty_days)"
    by (simp add: thirty_days_def)
  also have "\<dots> = ''2026-12-02T10:02:00.123Z''" by (rule iso_expiry)
  finally have iso: "''2026-12-02T10:02:00.123Z'' = toISOString 1796205720123" by (rule sym)
  have d: "(1796205720123::nat) < end_of_time"
    "day_number 1796205720123 < day_number (sq_now ?env)"
    by (simp_all add: end_of_time_def day_number_def sq_env_at_def sq_env_with_def)
  from iso d have "\<exists>expiry. ''2026-12-02T10:02:00.123Z'' = toISOString expiry
      \<and> expiry < end_of_time \<and> day_number expiry < day_number (sq_now ?env)"
    by (intro exI [of _ 1796205720123] conjI)
  then have "\<forall>s \<in> set (sessions_tbl sq_alice). s_session_token s = ?token \<longrightarrow>
          (\<exists>expiry. s_expires_at s = toISOString expiry \<and> expiry < end_of_time
             \<and> day_number expiry < day_number (sq_now ?env))"
    by (simp add: sq_alice_eq)
  with sq_verify_after_expiry_day [of ?env sq_alice ?token "''HW1''"] n
  show ?thesis by simp
qed

text \<open>
  On the day of the expiry the comparison does not look at the time of day: the date
  texts agree and the letter T of the stored text is above the space of
  \<open>datetime('now')\<close>. Every verification with the issuing hardware id at a later clock
  value of that day is answered with the account.
\<close>

lemma sq_session_accepted_to_end_of_expiry_day:
  assumes "sq_keys_unique db" and "s \<in> set (sessions_tbl db)" and "u \<in> set (users_tbl db)"
    and "u_id u = s_user_id s" and "s_session_token s \<noteq> []" and "s_hardware_id s \<noteq> []"
    and "s_expires_at s = toISOString expiry" and "sq_now env < end_of_time"
    and "expiry < sq_now env" and "day_number (sq_now env) = day_number expiry"
  shows "sq_verify_session env db (sq_verification (s_session_token s) (s_hardware_id s))
           = SQL_Valid (u_username u) (u_license_code u) (s_expires_at s)"
proof -
  from assms(8,9) have e: "expiry < end_of_time" by simp
  from assms(10) have d: "day_number (sq_now env) \<le> day_number expiry" by simp
  from assms(1-7) e assms(8) d show ?thesis by (rule sq_verify_until_expiry_day)
qed

lemma sql_late: "sqlite_datetime 1796245720123 = ''2026-12-02 21:08:40''"
  by code_simp

text \<open>
  Claim C4, the code at the failing input. The session of \<open>alice\<close> expires at
  2026-12-02T10:02:00.123Z, the clock value 1793613720123 + thirty_days. A verification
  of its token from its hardware id at 21:08:40 of that day, a clock value strictly after
  the expiry, does not fail: the query finds the row and the handler answers with the
  account.
\<close>

theorem sq_session_accepted_after_expiry:
  "s_expires_at (hd (sessions_tbl sq_alice)) = toISOString (1793613720123 + thirty_days)
   \<and> 1793613720123 + thirty_days < sq_now (sq_env_at 1796245720123)
   \<and> sq_verify_session (sq_env_at 1796245720123) sq_alice
       (sq_verification ''c3097e51b82a6df01493e73c854fd2600abb7619ce58279df4318c62a01be547'' ''HW1'')
     = SQL_Valid ''alice'' ''9F2C41D07AB35E6688C0F1D24B7A3E15'' ''2026-12-02T10:02:00.123Z''"
proof -
  have "s_expires_at (hd (sessions_tbl sq_alice)) = toISOString (1793613720123 + thirty_days)"
    by (simp add: sq_alice_eq iso_expiry)
  moreover have "1793613720123 + thirty_days < sq_now (sq_env_at 1796245720123)
    \<and> sq_verify_session (sq_env_at 1796245720123) sq_alice
        (sq_verification ''c3097e51b82a6df01493e73c854fd2600abb7619ce58279df4318c62a01be547'' ''HW1'')
      = SQL_Valid ''alice'' ''9F2C41D07AB35E6688C0F1D24B7A3E15'' ''2026-12-02T10:02:00.123Z''"
    by (simp add: sq_alice_eq sq_eval sql_late thirty_days_def)
  ultimately show ?thesis by (rule conjI)
qed

text \<open>
  The flat-file backend keeps no session and reads no clock in \<open>/api/verify-session\<close>:
  a verification a year after the activation is answered as one on the same day.
\<close>

lemma ff_verify_session_no_expiry:
  "ff_verify_session (ff_env0\<lparr>ff_now := 1825149720123\<rparr>) ff_alice
       \<lparr> vr_username = Some ''alice'',
         vr_token = Some ''c3097e51b82a6df01493e73c854fd2600abb7619ce58279df4318c62a01be547'',
         vr_hardwareID = Some ''HW1'' \<rparr>
     = FF_Session ''alice'' ''full''"
  by (simp add: ff_alice_eq ff_eval)

section \<open>Session verification in the flat-file backend\<close>

text \<open>
  Claim C9. The flat-file \<open>/api/verify-session\<close> never reads the token: two requests
  that differ in the token alone get the same answer, and with a readable users document
  every token is accepted for a stored user from a hardware id in that user's device list.
\<close>

theorem ff_verify_session_ignores_token:
  "ff_verify_session env st \<lparr>vr_username = u, vr_token = t1, vr_hardwareID = h\<rparr>
     = ff_verify_session env st \<lparr>vr_username = u, vr_token = t2, vr_hardwareID = h\<rparr>
   \<and> (ff_load_users_ok env \<and> map_of (ff_users st) name = Some user
        \<and> usr_devices user = Some ds \<and> hw \<in> set ds
      \<longrightarrow> ff_verify_session env st \<lparr>vr_username = Some name, vr_token = t, vr_hardwareID = Some hw\<rparr>
            = FF_Session (usr_username user) (licenseType (usr_licenseCode user)))"
  by (auto simp: ff_verify_session_def js_get_def js_key_def split: option.splits)

theorem ff_verify_session_ignores_token_witness:
  "ff_verify_session ff_env0 ff_alice
       \<lparr>vr_username = Some ''alice'', vr_token = Some ''no such token'', vr_hardwareID = Some ''HW1''\<rparr>
     = FF_Session ''alice'' ''full''"
proof -
  let ?user = "\<lparr> usr_username = ''alice'',
      usr_passwordHash = ''356131373030666632313963343430626533376431323638616133313035643973656372657431'',
      usr_salt = ''5a1700ff219c440be37d1268aa3105d9'', usr_licenseCode = ''PSYSTUDIO-2024-FULL'',
      usr_hardwareID = ''HW1'', usr_devices = Some [''HW1''],
      usr_createdAt = ''2026-11-02T10:02:00.123Z'', usr_lastLogin = ''2026-11-02T10:02:00.123Z'' \<rparr>"
  have h: "ff_load_users_ok ff_env0" "map_of (ff_users ff_alice) ''alice'' = Some ?user"
    by (simp_all add: ff_alice_eq ff_env0_def)
  from ff_verify_session_ignores_token
    [of ff_env0 ff_alice None None None None "''alice''" ?user "[''HW1'']" "''HW1''"
        "Some ''no such token''"] h
  show ?thesis by simp
qed

section \<open>The security-code server\<close>

text \<open>
  Claim C10. For a request that the middleware lets through, \<open>/validate\<close> answers
  \<open>valid: true\<close> exactly when the \<open>code\<close> of the body is one of \<open>validSecurityCodes\<close>,
  and \<open>/authenticate\<close> answers \<open>authenticated: true\<close> in exactly the same case. The
  handlers take no server state and return none: their answers are functions of the
  request body.
\<close>

theorem validate_true_iff_listed_code:
  "security_middleware req \<longrightarrow>
     (post_validate req = Valid True \<longleftrightarrow> (\<exists>c \<in> set validSecurityCodes. body_code req = Some c))
     \<and> (post_authenticate req = Authenticated \<longleftrightarrow> (\<exists>c \<in> set validSecurityCodes. body_code req = Some c))
     \<and> post_validate req = validate_handler req
     \<and> post_authenticate req = authenticate_handler req
     \<and> (rq_body req = rq_body req' \<longrightarrow> validate_handler req = validate_handler req'
          \<and> authenticate_handler req = authenticate_handler req')"
  by (auto simp: post_validate_def post_authenticate_def validate_handler_def
        authenticate_handler_def body_code_def is_valid_code_def split: option.splits)


theorem validate_true_iff_listed_code_witness:
  "security_middleware validate_example \<and> post_validate validate_example = Valid True
   \<and> post_authenticate validate_example = Authenticated"
proof -
  have h: "security_middleware validate_example"
    by (simp add: security_middleware_def validate_example_def js_truthy_def is_valid_code_def
          validSecurityCodes_def ascii_def)
  have m: "\<exists>c \<in> set validSecurityCodes. body_code validate_example = Some c"
    by (simp add: body_code_def validate_example_def validSecurityCodes_def ascii_def)
  from validate_true_iff_listed_code [of validate_example validate_example] h m
  show ?thesis by simp
qed

end
